theory Spec2Isabelle
  imports Complex_Main "HOL-Library.AList" "HOL-Library.Char_ord" "HOL-Library.List_Lexorder"
begin

section \<open>Data model\<close>

text \<open>
  The state records of pglookout are Python dictionaries. A key of such a dictionary can be
  missing, can hold \<^verbatim>\<open>None\<close>, or can hold a value; the code tells the three apart
  (\<^verbatim>\<open>'pg_is_in_recovery' in state\<close>, \<^verbatim>\<open>d.get(k)\<close>, \<^verbatim>\<open>d.update(result)\<close>), so an
  optional key is a \<open>field\<close>.
\<close>

datatype 'a field = Absent | Null | Val 'a

text \<open>\<^verbatim>\<open>d.get(k)\<close>: a missing key and a key holding \<^verbatim>\<open>None\<close> both read as \<^verbatim>\<open>None\<close>.\<close>

fun get_field :: "'a field \<Rightarrow> 'a option" where
  "get_field (Val v) = Some v"
| "get_field Null = None"
| "get_field Absent = None"

text \<open>\<^verbatim>\<open>dst.update(src)\<close> on one key: only a key that \<open>src\<close> has overwrites.\<close>

fun update_field :: "'a field \<Rightarrow> 'a field \<Rightarrow> 'a field" where
  "update_field old Absent = old"
| "update_field old new = new"

text \<open>
  A dictionary whose keys are peer names is an association list in insertion order with
  distinct keys: \<^verbatim>\<open>d[k] = v\<close> is \<^const>\<open>AList.update\<close> (the key keeps its place, a new
  key goes last), \<^verbatim>\<open>d.get(k)\<close> is \<^const>\<open>map_of\<close>, \<^verbatim>\<open>d.pop(k, default)\<close> is
  \<^const>\<open>AList.delete\<close>, and \<^verbatim>\<open>d.items()\<close> is the list itself.
\<close>

type_synonym ('k, 'v) dict = "('k \<times> 'v) list"

definition dict_update :: "('k, 'v) dict \<Rightarrow> ('k, 'v) dict \<Rightarrow> ('k, 'v) dict" where
  "dict_update dst src = fold (\<lambda>(k, v) d. AList.update k v d) src dst"

text \<open>
  Instants are seconds on the UTC time line and durations are seconds; the ISO-8601 strings
  of the source are kept parsed (\<^verbatim>\<open>parse_iso_datetime\<close> and \<^verbatim>\<open>get_iso_timestamp\<close> of
  \<^verbatim>\<open>pglookout.common\<close> convert between the two).
\<close>

type_synonym instant = real

record replication_slot =
  slot_name :: string
  plugin :: string
  slot_type :: string
  database :: string
  catalog_xmin :: string
  restart_lsn :: string
  confirmed_flush_lsn :: string
  state_data :: string

text \<open>
  The DB state record. Every record is born from the literal
  \<^verbatim>\<open>{"fetch_time": ..., "connection": ...}\<close>, so these two keys always exist; all
  other keys are optional.
\<close>

record node_state =
  fetch_time :: instant
  connection :: bool
  db_time :: "instant field"
  pg_is_in_recovery :: "bool field"
  pg_last_xact_replay_timestamp :: "instant field"
  pg_last_xlog_receive_location :: "string field"
  pg_last_xlog_replay_location :: "string field"
  replication_time_lag :: "real field"
  min_replication_time_lag :: "real field"
  replication_start_time :: "real field"
  replication_slots :: "replication_slot list field"

text \<open>
  The observer state record: \<^verbatim>\<open>fetch_time\<close>, \<^verbatim>\<open>connection\<close> and the observer's own
  view of the peers (the JSON object it serves under \<^verbatim>\<open>/state.json\<close>).
\<close>

record observer_record =
  o_fetch_time :: instant
  o_connection :: bool
  o_nodes :: "(string, node_state) dict"

section \<open>cluster\_monitor.py: the observer client\<close>

text \<open>
  What \<^verbatim>\<open>self.session.get(fetch_uri, timeout=5.0)\<close> and the reads of the response can
  do: raise \<^verbatim>\<open>requests.ConnectionError\<close>, raise something else, or answer. Of an answer
  the code reads the \<^verbatim>\<open>Date\<close> header (\<open>None\<close>: the header is missing or does not
  parse, and the code raises) and the JSON body (\<open>None\<close>: \<^verbatim>\<open>response.json()\<close>
  raises).
\<close>

datatype http_result =
    ConnectionError
  | OtherException
  | Response (date_header: "instant option") (json_body: "(string, node_state) dict option")

definition failed_fetch :: "instant \<Rightarrow> observer_record" where
  "failed_fetch now = \<lparr>o_fetch_time = now, o_connection = False, o_nodes = []\<rparr>"

text \<open>
  \<^verbatim>\<open>_fetch_observer_state\<close>. \<open>now\<close> is the instant of \<^verbatim>\<open>get_iso_timestamp()\<close>. In the
  branch that discards the answer the body is decoded for the log line, inside the
  \<^verbatim>\<open>try\<close>, so a body that does not decode ends in the \<^verbatim>\<open>except Exception\<close> clause.
\<close>

definition fetch_observer_state_inner :: "instant \<Rightarrow> http_result \<Rightarrow> observer_record option" where
  "fetch_observer_state_inner now http =
     (case http of
        ConnectionError \<Rightarrow> Some (failed_fetch now)
      | OtherException \<Rightarrow> Some (failed_fetch now)
      | Response date body \<Rightarrow>
          (case date of
             None \<Rightarrow> Some (failed_fetch now)
           | Some remote_server_time \<Rightarrow>
               (let time_diff = now - remote_server_time in
                if time_diff > 5 then
                  (case body of None \<Rightarrow> Some (failed_fetch now) | Some _ \<Rightarrow> None)
                else
                  (case body of
                     None \<Rightarrow> Some (failed_fetch now)
                   | Some nodes \<Rightarrow>
                       Some \<lparr>o_fetch_time = now, o_connection = True,
                             o_nodes = dict_update [] nodes\<rparr>))))"

text \<open>\<^verbatim>\<open>self.observer_state[instance].update(result)\<close>.\<close>

definition update_observer_record :: "observer_record \<Rightarrow> observer_record \<Rightarrow> observer_record" where
  "update_observer_record old result =
     \<lparr>o_fetch_time = o_fetch_time result, o_connection = o_connection result,
      o_nodes = dict_update (o_nodes old) (o_nodes result)\<rparr>"

text \<open>
  The part of a \<^verbatim>\<open>ClusterMonitor\<close> that the probes read and write. The two state maps
  are shared with the main thread.
\<close>

record known_slots =
  ks_instance :: string
  ks_slots :: "replication_slot list"
  ks_last_updated :: real

record cluster_monitor =
  cluster_state :: "(string, node_state) dict"
  observer_state :: "(string, observer_record) dict"
  known_replication_slots :: "known_slots option"

text \<open>
  \<^verbatim>\<open>fetch_observer_state\<close>. A result that is returned is never an empty dictionary,
  so \<^verbatim>\<open>if result:\<close> tells a result from \<^verbatim>\<open>None\<close>.
\<close>

definition fetch_observer_state ::
  "string \<Rightarrow> instant \<Rightarrow> http_result \<Rightarrow> cluster_monitor \<Rightarrow> cluster_monitor" where
  "fetch_observer_state instance now http self =
     (case fetch_observer_state_inner now http of
        None \<Rightarrow> self
      | Some result \<Rightarrow>
          (case map_of (observer_state self) instance of
             Some old \<Rightarrow>
               self\<lparr>observer_state :=
                 AList.update instance (update_observer_record old result) (observer_state self)\<rparr>
           | None \<Rightarrow>
               self\<lparr>observer_state := AList.update instance result (observer_state self)\<rparr>))"

section \<open>cluster\_monitor.py: probing a cluster member\<close>

text \<open>
  The row that the status queries of \<^verbatim>\<open>_query_cluster_member_state\<close> leave in
  \<^verbatim>\<open>f_result\<close>: the columns of the compound SELECT, on a master with the replay location
  of the last master query that came back, and \<^verbatim>\<open>replication_slots\<close> when the server
  is of version 10 or later.
\<close>

record db_row =
  r_db_time :: instant
  r_pg_is_in_recovery :: bool
  r_pg_last_xact_replay_timestamp :: "instant option"
  r_pg_last_xlog_receive_location :: "string option"
  r_pg_last_xlog_replay_location :: "string option"
  r_replication_slots :: "replication_slot list option"

fun field_of_option :: "'a option \<Rightarrow> 'a field" where
  "field_of_option None = Null"
| "field_of_option (Some v) = Val v"

text \<open>
  A result dictionary of a probe is a \<^typ>\<open>node_state\<close> whose missing keys are
  \<^const>\<open>Absent\<close>. \<^verbatim>\<open>base_result\<close> is the literal that
  \<^verbatim>\<open>_query_cluster_member_state\<close> starts from.
\<close>

definition base_result :: "instant \<Rightarrow> node_state" where
  "base_result now =
     \<lparr>fetch_time = now, connection = False, db_time = Absent, pg_is_in_recovery = Absent,
      pg_last_xact_replay_timestamp = Absent, pg_last_xlog_receive_location = Absent,
      pg_last_xlog_replay_location = Absent, replication_time_lag = Absent,
      min_replication_time_lag = Absent, replication_start_time = Absent,
      replication_slots = Absent\<rparr>"

text \<open>
  \<^verbatim>\<open>_parse_status_query_result\<close> followed by \<^verbatim>\<open>result.update(...)\<close>: the keys that the
  parsed row adds to the result of the probe. The lag is set when the replay timestamp
  is not null, and set to \<^verbatim>\<open>None\<close> on a master.
\<close>

definition parse_status_query_result :: "db_row \<Rightarrow> node_state \<Rightarrow> node_state" where
  "parse_status_query_result row result =
     (let lag = (case r_pg_last_xact_replay_timestamp row of
                   None \<Rightarrow> Absent
                 | Some ts \<Rightarrow> Val \<bar>r_db_time row - ts\<bar>);
          master = \<not> r_pg_is_in_recovery row
      in result
          \<lparr>connection := True,
           db_time := Val (r_db_time row),
           pg_is_in_recovery := Val (r_pg_is_in_recovery row),
           pg_last_xact_replay_timestamp :=
             (if master then Null else field_of_option (r_pg_last_xact_replay_timestamp row)),
           pg_last_xlog_receive_location :=
             (if master then Null else field_of_option (r_pg_last_xlog_receive_location row)),
           pg_last_xlog_replay_location := field_of_option (r_pg_last_xlog_replay_location row),
           replication_time_lag := (if master then Null else lag),
           replication_slots :=
             (case r_replication_slots row of None \<Rightarrow> Absent | Some slots \<Rightarrow> Val slots)\<rparr>)"

text \<open>
  \<^verbatim>\<open>_query_cluster_member_state\<close>: \<open>f_result\<close> is \<open>None\<close> when there is no connection
  or the queries raised before a row was kept.
\<close>

definition query_cluster_member_state :: "instant \<Rightarrow> db_row option \<Rightarrow> node_state" where
  "query_cluster_member_state now f_result =
     (case f_result of
        None \<Rightarrow> base_result now
      | Some row \<Rightarrow> parse_status_query_result row (base_result now))"

text \<open>\<^verbatim>\<open>self.cluster_state[instance].update(result)\<close>.\<close>

definition update_node_state :: "node_state \<Rightarrow> node_state \<Rightarrow> node_state" where
  "update_node_state old result =
     \<lparr>fetch_time = fetch_time result,
      connection = connection result,
      db_time = update_field (db_time old) (db_time result),
      pg_is_in_recovery = update_field (pg_is_in_recovery old) (pg_is_in_recovery result),
      pg_last_xact_replay_timestamp =
        update_field (pg_last_xact_replay_timestamp old) (pg_last_xact_replay_timestamp result),
      pg_last_xlog_receive_location =
        update_field (pg_last_xlog_receive_location old) (pg_last_xlog_receive_location result),
      pg_last_xlog_replay_location =
        update_field (pg_last_xlog_replay_location old) (pg_last_xlog_replay_location result),
      replication_time_lag =
        update_field (replication_time_lag old) (replication_time_lag result),
      min_replication_time_lag =
        update_field (min_replication_time_lag old) (min_replication_time_lag result),
      replication_start_time =
        update_field (replication_start_time old) (replication_start_time result),
      replication_slots = update_field (replication_slots old) (replication_slots result)\<rparr>"

text \<open>Python's truth value of a string key read with \<^verbatim>\<open>d.get(k)\<close> or \<^verbatim>\<open>d[k]\<close>.\<close>

fun truthy_string :: "string field \<Rightarrow> bool" where
  "truthy_string (Val s) = (s \<noteq> [])"
| "truthy_string Null = False"
| "truthy_string Absent = False"

text \<open>
  The entry that \<^verbatim>\<open>update_cluster_member_state\<close> leaves for the instance: \<open>previous\<close>
  is the entry before the call, \<open>result\<close> the result of the probe. When the instance
  has no entry yet, the result dictionary itself becomes the entry, so
  \<^verbatim>\<open>result.setdefault("replication_start_time", ...)\<close> reaches the entry; when it has
  one, the result was copied into it before and the \<^verbatim>\<open>setdefault\<close> changes the result
  only. The lowest lag seen is then written into the entry.
\<close>

definition updated_entry :: "node_state option \<Rightarrow> node_state \<Rightarrow> real \<Rightarrow> node_state" where
  "updated_entry previous result mono_now =
     (let started = truthy_string (pg_last_xlog_receive_location result);
          entry = (case previous of
                     Some old \<Rightarrow> update_node_state old result
                   | None \<Rightarrow>
                       (if started then result\<lparr>replication_start_time := Val mono_now\<rparr>
                        else result));
          min_lag = get_field (min_replication_time_lag entry);
          now_lag = get_field (replication_time_lag result)
      in case now_lag of
           None \<Rightarrow> entry
         | Some l \<Rightarrow>
             (case min_lag of
                None \<Rightarrow> entry\<lparr>min_replication_time_lag := Val l\<rparr>
              | Some m \<Rightarrow> entry\<lparr>min_replication_time_lag := Val (min m l)\<rparr>))"

text \<open>
  \<^verbatim>\<open>update_cluster_member_state\<close>. \<open>now\<close> is the instant of the probe and \<open>mono_now\<close> the
  reading of \<^verbatim>\<open>time.monotonic()\<close>.
\<close>

definition update_cluster_member_state ::
  "string \<Rightarrow> instant \<Rightarrow> real \<Rightarrow> db_row option \<Rightarrow> cluster_monitor \<Rightarrow> cluster_monitor" where
  "update_cluster_member_state instance now mono_now f_result self =
     (let result = query_cluster_member_state now f_result;
          entry = updated_entry (map_of (cluster_state self) instance) result mono_now
      in self
          \<lparr>cluster_state := AList.update instance entry (cluster_state self),
           known_replication_slots :=
             (case replication_slots result of
                Val slots \<Rightarrow>
                  Some \<lparr>ks_instance = instance, ks_slots = slots, ks_last_updated = mono_now\<rparr>
              | _ \<Rightarrow> known_replication_slots self)\<rparr>)"

text \<open>
  The eviction of \<^verbatim>\<open>connect_to_cluster_nodes_and_cleanup_old_nodes\<close> for one instance
  that left the configuration.
\<close>

definition remove_leftover_state :: "string \<Rightarrow> cluster_monitor \<Rightarrow> cluster_monitor" where
  "remove_leftover_state leftover_instance self =
     self\<lparr>cluster_state := AList.delete leftover_instance (cluster_state self),
          observer_state := AList.delete leftover_instance (observer_state self)\<rparr>"

text \<open>
  The monitors that a run can reach: the maps start empty (\<^verbatim>\<open>PgLookout.__init__\<close>) and
  are written by the probes of the monitoring loop and its eviction only.
\<close>

inductive reachable :: "cluster_monitor \<Rightarrow> bool" where
  start: "reachable \<lparr>cluster_state = [], observer_state = [], known_replication_slots = None\<rparr>"
| probe: "reachable self \<Longrightarrow> reachable (update_cluster_member_state instance now mono_now f_result self)"
| fetch: "reachable self \<Longrightarrow> reachable (fetch_observer_state instance now http self)"
| evict: "reachable self \<Longrightarrow> reachable (remove_leftover_state instance self)"

text \<open>
  A run of the monitor is a sequence of such writes: the probes and fetches of the passes
  of \<^verbatim>\<open>main_monitoring_loop\<close> and the evictions at their start, in the order in which
  they take effect.
\<close>

datatype monitor_step =
    Probe string instant real "db_row option"
  | Fetch string instant http_result
  | Evict string

fun do_step :: "monitor_step \<Rightarrow> cluster_monitor \<Rightarrow> cluster_monitor" where
  "do_step (Probe inst now mono_now f_result) self =
     update_cluster_member_state inst now mono_now f_result self"
| "do_step (Fetch inst now http) self = fetch_observer_state inst now http self"
| "do_step (Evict inst) self = remove_leftover_state inst self"

definition run_monitor :: "monitor_step list \<Rightarrow> cluster_monitor \<Rightarrow> cluster_monitor" where
  "run_monitor steps self = fold do_step steps self"

section \<open>pglookout.py: the supervisor's state\<close>

text \<open>
  The configuration is the JSON object of the configuration file; \<open>None\<close> is a key the
  object does not have. \<^verbatim>\<open>primary_conninfo_template\<close> is kept as what
  \<^verbatim>\<open>get_connection_info\<close> makes of it: \<open>Some None\<close> when that raises
  \<^verbatim>\<open>ValueError\<close>.
\<close>

record config =
  remote_conns :: "(string, string) dict option"
  autofollow :: "bool option"
  cfg_primary_conninfo_template :: "(string, string) dict option option"
  syslog :: "bool option"
  cfg_own_db :: "string option"
  cfg_log_level :: "string option"
  cfg_never_promote_these_nodes :: "string list option"
  cfg_failover_command :: "string option"
  cfg_over_warning_limit_command :: "string option"
  warning_replication_time_lag :: "real option"
  max_failover_replication_time_lag :: "real option"
  failover_sleep_time :: "real option"

definition empty_config :: config where
  "empty_config =
     \<lparr>remote_conns = None, autofollow = None, cfg_primary_conninfo_template = None,
      syslog = None, cfg_own_db = None, cfg_log_level = None,
      cfg_never_promote_these_nodes = None, cfg_failover_command = None,
      cfg_over_warning_limit_command = None, warning_replication_time_lag = None,
      max_failover_replication_time_lag = None, failover_sleep_time = None\<rparr>"

datatype error = KeyError string | ValueError string | AttributeError string | SystemExit int

datatype event =
    Execute "string list"
  | Create_alert_file string
  | Delete_alert_file string
  | Sleep real

text \<open>
  The attributes of a \<^verbatim>\<open>PgLookout\<close>. \<open>monitor_config\<close> is
  \<^verbatim>\<open>self.cluster_monitor.config\<close>, \<open>None\<close> while \<^verbatim>\<open>self.cluster_monitor\<close> is
  \<^verbatim>\<open>None\<close> (during the first \<^verbatim>\<open>load_config\<close> of \<^verbatim>\<open>__init__\<close>).
\<close>

record pglookout =
  config :: config
  log_level :: nat
  replication_lag_over_warning_limit :: bool
  connected_master_nodes :: "(string, node_state) dict"
  disconnected_master_nodes :: "(string, node_state) dict"
  connected_observer_nodes :: "(string, instant) dict"
  disconnected_observer_nodes :: "(string, instant) dict"
  replication_lag_warning_boundary :: real
  replication_lag_failover_timeout :: real
  own_db :: "string option"
  current_master :: "string option"
  failover_command :: "string list"
  over_warning_limit_command :: "string option"
  never_promote_these_nodes :: "string list"
  primary_conninfo_template :: "(string, string) dict option"
  monitor_config :: "config option"
  syslog_handler :: bool
  cluster_nodes_change_time :: real

section \<open>pglookout.py: load\_config\<close>






section \<open>pglookout.py: create\_node\_map\<close>

text \<open>
  The local variable \<^verbatim>\<open>master_node\<close> holds \<^verbatim>\<open>None\<close>, the empty dictionary that
  \<^verbatim>\<open>connected_master_nodes.get(host, {})\<close> defaults to, or a state record.
\<close>

datatype master_ref = No_master | Empty_dict | Master node_state

text \<open>
  The variables of \<^verbatim>\<open>create_node_map\<close> while its loops run. The four dictionaries of
  masters and observers are local until the loops end and are then assigned to the
  attributes of the same names; nothing reads the attributes in between, so they are
  written into the attributes (\<open>pgl\<close>) from the start.
\<close>

record node_map =
  nm_standby_nodes :: "(string, node_state) dict"
  nm_master_node :: master_ref
  pgl :: pglookout

text \<open>Python's truth value of \<^verbatim>\<open>state['pg_is_in_recovery']\<close> for a key that exists.\<close>

fun truthy_bool :: "bool field \<Rightarrow> bool" where
  "truthy_bool (Val b) = b"
| "truthy_bool Null = False"
| "truthy_bool Absent = False"

text \<open>The body of the loop over \<^verbatim>\<open>cluster_state.items()\<close>.\<close>

definition classify_local_node :: "string \<times> node_state \<Rightarrow> node_map \<Rightarrow> node_map" where
  "classify_local_node item nm =
     (let host = fst item; state = snd item in
      if pg_is_in_recovery state \<noteq> Absent then
        (if truthy_bool (pg_is_in_recovery state) then
           nm\<lparr>nm_standby_nodes := AList.update host state (nm_standby_nodes nm)\<rparr>
         else if connection state then
           nm\<lparr>pgl := (pgl nm)\<lparr>connected_master_nodes :=
                 AList.update host state (connected_master_nodes (pgl nm))\<rparr>\<rparr>
         else
           nm\<lparr>pgl := (pgl nm)\<lparr>disconnected_master_nodes :=
                 AList.update host state (disconnected_master_nodes (pgl nm))\<rparr>\<rparr>)
      else nm)"

text \<open>
  The body of the inner loop over the peers of one observer's record. \<open>connected\<close> is
  read from the entry that \<^verbatim>\<open>connected_master_nodes\<close> holds for the host at that moment.
\<close>

definition merge_observed_node ::
  "(string, node_state) dict \<Rightarrow> string \<times> node_state \<Rightarrow> node_map \<Rightarrow> node_map" where
  "merge_observed_node cluster_copy item nm =
     (let host = fst item; db_state = snd item in
      case map_of cluster_copy host of
        None \<Rightarrow> nm
      | Some own \<Rightarrow>
          (let own_fetch_time = fetch_time own;
               observer_fetch_time = fetch_time db_state
           in if pg_is_in_recovery db_state \<noteq> Absent then
                (if truthy_bool (pg_is_in_recovery db_state) then
                   (if observer_fetch_time \<ge> own_fetch_time \<and> Some host \<noteq> own_db (pgl nm)
                       \<and> (case map_of (nm_standby_nodes nm) host of
                             None \<Rightarrow> True | Some s \<Rightarrow> \<not> connection s)
                    then nm\<lparr>nm_standby_nodes := AList.update host db_state (nm_standby_nodes nm)\<rparr>
                    else nm)
                 else
                   (let found = map_of (connected_master_nodes (pgl nm)) host;
                        connected = (case found of None \<Rightarrow> False | Some m \<Rightarrow> connection m);
                        nm1 = nm\<lparr>nm_master_node :=
                                 (case found of None \<Rightarrow> Empty_dict | Some m \<Rightarrow> Master m)\<rparr>
                    in if observer_fetch_time \<ge> own_fetch_time \<and> Some host \<noteq> own_db (pgl nm)
                       then (if connected then
                               nm1\<lparr>pgl := (pgl nm)\<lparr>connected_master_nodes :=
                                  AList.update host db_state (connected_master_nodes (pgl nm))\<rparr>\<rparr>
                             else
                               nm1\<lparr>pgl := (pgl nm)\<lparr>disconnected_master_nodes :=
                                  AList.update host db_state
                                    (disconnected_master_nodes (pgl nm))\<rparr>\<rparr>)
                       else nm1))
              else nm))"

text \<open>The body of the loop over \<^verbatim>\<open>observer_state.items()\<close>.\<close>

definition merge_observer ::
  "(string, node_state) dict \<Rightarrow> string \<times> observer_record \<Rightarrow> node_map \<Rightarrow> node_map" where
  "merge_observer cluster_copy item nm =
     (let observer_name = fst item; state = snd item;
          nm1 = (if o_connection state then
                   nm\<lparr>pgl := (pgl nm)\<lparr>connected_observer_nodes :=
                      AList.update observer_name (o_fetch_time state)
                        (connected_observer_nodes (pgl nm))\<rparr>\<rparr>
                 else
                   nm\<lparr>pgl := (pgl nm)\<lparr>disconnected_observer_nodes :=
                      AList.update observer_name (o_fetch_time state)
                        (disconnected_observer_nodes (pgl nm))\<rparr>\<rparr>)
      in fold (merge_observed_node cluster_copy) (o_nodes state) nm1)"

text \<open>
  \<^verbatim>\<open>create_node_map\<close>: the returned triple \<^verbatim>\<open>(master_host, master_node, standby_nodes)\<close>,
  the attributes it leaves, and the alert files it writes.
\<close>

definition create_node_map ::
  "pglookout \<Rightarrow> (string, node_state) dict \<Rightarrow> (string, observer_record) dict
     \<Rightarrow> (string option \<times> master_ref \<times> (string, node_state) dict) \<times> pglookout \<times> event list" where
  "create_node_map self cluster_copy observer_copy =
     (let start = \<lparr>nm_standby_nodes = [], nm_master_node = No_master,
                    pgl = self\<lparr>connected_master_nodes := [], disconnected_master_nodes := [],
                                 connected_observer_nodes := [],
                                 disconnected_observer_nodes := []\<rparr>\<rparr>;
          nm = fold (merge_observer cluster_copy) observer_copy
                 (fold classify_local_node cluster_copy start);
          self' = pgl nm
      in case connected_master_nodes self' of
           [] \<Rightarrow>
             (case disconnected_master_nodes self' of
                [] \<Rightarrow> ((None, nm_master_node nm, nm_standby_nodes nm), self', [])
              | (host, node) # _ \<Rightarrow> ((Some host, Master node, nm_standby_nodes nm), self', []))
         | [(host, node)] \<Rightarrow> ((Some host, Master node, nm_standby_nodes nm), self', [])
         | _ \<Rightarrow> ((None, nm_master_node nm, nm_standby_nodes nm), self',
                 [Create_alert_file ''multiple_master_warning'']))"

section \<open>common.py: WAL positions\<close>

definition hex_digit :: "char \<Rightarrow> nat option" where
  "hex_digit c =
     map_of [(CHR ''0'', 0), (CHR ''1'', 1), (CHR ''2'', 2), (CHR ''3'', 3), (CHR ''4'', 4),
             (CHR ''5'', 5), (CHR ''6'', 6), (CHR ''7'', 7), (CHR ''8'', 8), (CHR ''9'', 9),
             (CHR ''a'', 10), (CHR ''b'', 11), (CHR ''c'', 12), (CHR ''d'', 13),
             (CHR ''e'', 14), (CHR ''f'', 15), (CHR ''A'', 10), (CHR ''B'', 11),
             (CHR ''C'', 12), (CHR ''D'', 13), (CHR ''E'', 14), (CHR ''F'', 15)] c"

fun parse_hex_acc :: "nat \<Rightarrow> string \<Rightarrow> nat option" where
  "parse_hex_acc acc [] = Some acc"
| "parse_hex_acc acc (c # cs) =
     (case hex_digit c of None \<Rightarrow> None | Some d \<Rightarrow> parse_hex_acc (16 * acc + d) cs)"

definition parse_hex :: "string \<Rightarrow> nat option" where
  "parse_hex s = (if s = [] then None else parse_hex_acc 0 s)"

text \<open>
  Modelled from the spec: \<^verbatim>\<open>convert_xlog_location_to_offset\<close> of
  \<^verbatim>\<open>pglookout/common.py\<close>, which is not among the sources. A WAL position is
  \<^verbatim>\<open>HEX/HEX\<close> and its offset is \<^verbatim>\<open>(high << 32) | low\<close>; \<open>None\<close> is a string of
  another form, on which the conversion raises.
\<close>

definition convert_xlog_location_to_offset :: "string \<Rightarrow> nat option" where
  "convert_xlog_location_to_offset xlog_location =
     (let high = takeWhile (\<lambda>c. c \<noteq> CHR ''/'') xlog_location;
          rest = dropWhile (\<lambda>c. c \<noteq> CHR ''/'') xlog_location
      in case rest of
           [] \<Rightarrow> None
         | _ # low \<Rightarrow>
             (case (parse_hex high, parse_hex low) of
                (Some h, Some l) \<Rightarrow> Some (or (push_bit 32 h) l)
              | _ \<Rightarrow> None))"

section \<open>pglookout.py: the failover decision\<close>

text \<open>
  \<^verbatim>\<open>known_replication_positions\<close>: a dictionary from offsets to sets of host names.
  \<^verbatim>\<open>known_replication_positions.setdefault(xlog_pos, set()).add(hostname)\<close> is
  \<open>add_position\<close>.
\<close>

type_synonym positions = "(nat, string set) dict"

definition add_position :: "nat \<Rightarrow> string \<Rightarrow> positions \<Rightarrow> positions" where
  "add_position xlog_pos hostname known =
     (case map_of known xlog_pos of
        None \<Rightarrow> AList.update xlog_pos {hostname} known
      | Some hosts \<Rightarrow> AList.update xlog_pos (insert hostname hosts) known)"

text \<open>
  \<^verbatim>\<open>node_state['pg_last_xlog_receive_location'] or node_state['pg_last_xlog_replay_location']\<close>
  followed by the conversion: a missing key raises \<^verbatim>\<open>KeyError\<close>, the second key is
  read only when the first is not true, and a position that is not true counts as 0.
\<close>

definition xlog_pos_of :: "node_state \<Rightarrow> error + nat" where
  "xlog_pos_of node =
     (case pg_last_xlog_receive_location node of
        Absent \<Rightarrow> Inl (KeyError ''pg_last_xlog_receive_location'')
      | receive \<Rightarrow>
          (if truthy_string receive then
             (case convert_xlog_location_to_offset (case receive of Val s \<Rightarrow> s | _ \<Rightarrow> []) of
                None \<Rightarrow> Inl (ValueError ''xlog_location'')
              | Some pos \<Rightarrow> Inr pos)
           else
             (case pg_last_xlog_replay_location node of
                Absent \<Rightarrow> Inl (KeyError ''pg_last_xlog_replay_location'')
              | replay \<Rightarrow>
                  (if truthy_string replay then
                     (case convert_xlog_location_to_offset
                             (case replay of Val s \<Rightarrow> s | _ \<Rightarrow> []) of
                        None \<Rightarrow> Inl (ValueError ''xlog_location'')
                      | Some pos \<Rightarrow> Inr pos)
                   else Inr 0))))"

text \<open>The condition under which \<^verbatim>\<open>get_replication_positions\<close> counts a standby.\<close>

definition counts_for_failover :: "pglookout \<Rightarrow> instant \<Rightarrow> string \<Rightarrow> node_state \<Rightarrow> bool" where
  "counts_for_failover self now hostname node =
     (connection node \<and> now - fetch_time node < 20
        \<and> hostname \<notin> set (never_promote_these_nodes self))"

text \<open>
  \<^verbatim>\<open>get_replication_positions\<close>: the loop over \<^verbatim>\<open>standby_nodes.items()\<close>, with the
  dictionary built so far. \<open>now\<close> is \<^verbatim>\<open>datetime.datetime.utcnow()\<close>.
\<close>

fun get_replication_positions_from ::
  "pglookout \<Rightarrow> instant \<Rightarrow> positions \<Rightarrow> (string, node_state) dict \<Rightarrow> error + positions" where
  "get_replication_positions_from self now known [] = Inr known"
| "get_replication_positions_from self now known ((hostname, node) # rest) =
     (if counts_for_failover self now hostname node then
        (case xlog_pos_of node of
           Inl e \<Rightarrow> Inl e
         | Inr xlog_pos \<Rightarrow>
             get_replication_positions_from self now (add_position xlog_pos hostname known) rest)
      else get_replication_positions_from self now known rest)"

definition get_replication_positions ::
  "pglookout \<Rightarrow> instant \<Rightarrow> (string, node_state) dict \<Rightarrow> error + positions" where
  "get_replication_positions self now standby_nodes =
     get_replication_positions_from self now [] standby_nodes"

text \<open>
  \<^verbatim>\<open>_have_we_been_in_contact_with_the_master_within_the_failover_timeout\<close>. The clock
  readings of one call (\<^verbatim>\<open>get_iso_timestamp()\<close> for a record without \<^verbatim>\<open>db_time\<close>,
  then \<^verbatim>\<open>utcnow()\<close>) are the one instant \<open>now\<close>.
\<close>

definition have_we_been_in_contact_with_the_master_within_the_failover_timeout ::
  "pglookout \<Rightarrow> instant \<Rightarrow> bool" where
  "have_we_been_in_contact_with_the_master_within_the_failover_timeout self now =
     (case disconnected_master_nodes self of
        [] \<Rightarrow> False
      | (host, disconnected_master_node) # _ \<Rightarrow>
          (let contact = (case get_field (db_time disconnected_master_node) of
                            None \<Rightarrow> now | Some t \<Rightarrow> t);
               time_since_last_contact = now - contact
           in time_since_last_contact < replication_lag_failover_timeout self))"

text \<open>
  \<^verbatim>\<open>min(known_replication_positions[max(known_replication_positions)])\<close>. Python
  compares strings character by character, a proper prefix being smaller; this is the
  order of \<^typ>\<open>string\<close> here.
\<close>

definition furthest_along_host :: "positions \<Rightarrow> string" where
  "furthest_along_host known =
     Min (case map_of known (Max (set (map fst known))) of None \<Rightarrow> {} | Some hosts \<Rightarrow> hosts)"

definition total_amount_of_nodes :: "pglookout \<Rightarrow> (string, node_state) dict \<Rightarrow> int" where
  "total_amount_of_nodes self standby_nodes =
     (let total_observers =
            length (connected_observer_nodes self) + length (disconnected_observer_nodes self)
      in int (length standby_nodes) + 1 - int (length (never_promote_these_nodes self))
           + int total_observers)"

definition size_of_known_state :: "pglookout \<Rightarrow> positions \<Rightarrow> nat" where
  "size_of_known_state self known =
     (let amount_of_known_replication_positions = sum_list (map (\<lambda>(pos, hosts). card hosts) known)
      in amount_of_known_replication_positions + length (connected_observer_nodes self))"

text \<open>How a call of \<^verbatim>\<open>do_failover_decision\<close> ends, one value for each way out.\<close>

datatype decision =
    Masters_still_connected
  | No_known_replication_positions
  | Nothing_to_do string
  | Maintenance_mode
  | Never_promote
  | No_majority
  | Failover int

text \<open>
  What a decision reads from outside: the clock, whether the maintenance mode file exists
  and the return code of the failover command.
\<close>

record world =
  utcnow :: instant
  maintenance_mode_file_exists :: bool
  return_code :: int

text \<open>
  The second half of \<^verbatim>\<open>do_failover_decision\<close>, from the choice of
  \<^verbatim>\<open>furthest_along_host\<close> on, for the replication positions found.
\<close>

definition decide_for_positions ::
  "world \<Rightarrow> pglookout \<Rightarrow> node_state option \<Rightarrow> (string, node_state) dict \<Rightarrow> positions
     \<Rightarrow> error + decision \<times> pglookout \<times> event list" where
  "decide_for_positions w self own_state standby_nodes known_replication_positions =
     (let furthest = furthest_along_host known_replication_positions;
          size_of_needed_majority =
            real_of_int (total_amount_of_nodes self standby_nodes) * 0.5;
          known = size_of_known_state self known_replication_positions
      in case map_of standby_nodes furthest of
           None \<Rightarrow> Inl (KeyError furthest)
         | Some furthest_state \<Rightarrow>
             (if Some furthest_state = own_state then
                (if maintenance_mode_file_exists w then
                   Inr (Maintenance_mode, self, [])
                 else if (case own_db self of
                            None \<Rightarrow> False
                          | Some name \<Rightarrow> name \<in> set (never_promote_these_nodes self))
                 then Inr (Never_promote, self, [])
                 else if real known < size_of_needed_majority then
                   Inr (No_majority, self, [])
                 else
                   Inr (Failover (return_code w),
                        (if return_code w = 0
                         then self\<lparr>replication_lag_over_warning_limit := False\<rparr>
                         else self),
                        [Execute (failover_command self),
                         Create_alert_file ''failover_has_happened'',
                         Sleep (case failover_sleep_time (config self) of
                                  None \<Rightarrow> 0 | Some t \<Rightarrow> t)]
                        @ (if return_code w = 0
                           then [Delete_alert_file ''replication_delay_warning'']
                           else [])))
              else Inr (Nothing_to_do furthest, self, [])))"

text \<open>
  \<^verbatim>\<open>do_failover_decision\<close>: the way out, the attributes afterwards and what was done to
  the outside, or the exception that leaves the function.
\<close>

definition do_failover_decision ::
  "world \<Rightarrow> pglookout \<Rightarrow> node_state option \<Rightarrow> (string, node_state) dict
     \<Rightarrow> error + decision \<times> pglookout \<times> event list" where
  "do_failover_decision w self own_state standby_nodes =
     (if length (connected_master_nodes self) > 0
         \<or> have_we_been_in_contact_with_the_master_within_the_failover_timeout self (utcnow w)
      then Inr (Masters_still_connected, self, [])
      else
        (case get_replication_positions self (utcnow w) standby_nodes of
           Inl e \<Rightarrow> Inl e
         | Inr known_replication_positions \<Rightarrow>
             (if known_replication_positions = [] then
                Inr (No_known_replication_positions, self, [])
              else
                decide_for_positions w self own_state standby_nodes
                  known_replication_positions)))"

text \<open>Whether a call of \<^verbatim>\<open>do_failover_decision\<close> ran the failover command.\<close>

definition failover_invoked :: "error + decision \<times> pglookout \<times> event list \<Rightarrow> bool" where
  "failover_invoked outcome =
     (case outcome of
        Inl e \<Rightarrow> False
      | Inr (d, self', events) \<Rightarrow> list_ex (\<lambda>e. case e of Execute c \<Rightarrow> True | _ \<Rightarrow> False) events)"

section \<open>States used as examples\<close>

definition a_standby_state :: "instant \<Rightarrow> string \<Rightarrow> node_state" where
  "a_standby_state t lsn =
     \<lparr>fetch_time = t, connection = True, db_time = Val t, pg_is_in_recovery = Val True,
      pg_last_xact_replay_timestamp = Val t, pg_last_xlog_receive_location = Val lsn,
      pg_last_xlog_replay_location = Val lsn, replication_time_lag = Val 0,
      min_replication_time_lag = Val 0, replication_start_time = Absent,
      replication_slots = Absent\<rparr>"

definition a_master_state :: "instant \<Rightarrow> bool \<Rightarrow> instant field \<Rightarrow> node_state" where
  "a_master_state t c contact =
     \<lparr>fetch_time = t, connection = c, db_time = contact, pg_is_in_recovery = Val False,
      pg_last_xact_replay_timestamp = Null, pg_last_xlog_receive_location = Null,
      pg_last_xlog_replay_location = Val ''1/0'', replication_time_lag = Null,
      min_replication_time_lag = Absent, replication_start_time = Absent,
      replication_slots = Absent\<rparr>"

text \<open>
  A supervisor on the node \<open>name\<close> that has loaded a configuration without observers and
  without a never-promote list, with the failover command \<^verbatim>\<open>promote\<close>.
\<close>

definition a_pglookout :: "string \<Rightarrow> real \<Rightarrow> (string, node_state) dict \<Rightarrow> pglookout" where
  "a_pglookout name timeout disconnected =
     \<lparr>config = empty_config, log_level = 10, replication_lag_over_warning_limit = False,
      connected_master_nodes = [], disconnected_master_nodes = disconnected,
      connected_observer_nodes = [], disconnected_observer_nodes = [],
      replication_lag_warning_boundary = 30, replication_lag_failover_timeout = timeout,
      own_db = Some name, current_master = None, failover_command = [''promote''],
      over_warning_limit_command = None, never_promote_these_nodes = [],
      primary_conninfo_template = None, monitor_config = Some empty_config,
      syslog_handler = False, cluster_nodes_change_time = 0\<rparr>"

definition a_world :: world where
  "a_world = \<lparr>utcnow = 1005, maintenance_mode_file_exists = False, return_code = 0\<rparr>"

definition lone_standby :: "(string, node_state) dict" where
  "lone_standby = [(''A'', a_standby_state 1000 ''1/2'')]"

definition twin_standbys :: "(string, node_state) dict" where
  "twin_standbys = [(''A'', a_standby_state 1000 ''1/2''), (''B'', a_standby_state 1000 ''1/2'')]"

definition three_standbys :: "(string, node_state) dict" where
  "three_standbys =
     [(''C'', a_standby_state 1000 ''1/2''), (''A'', a_standby_state 1000 ''1/1''),
      (''B'', a_standby_state 1000 ''1/2'')]"

definition two_lost_masters :: "(string, node_state) dict" where
  "two_lost_masters =
     [(''M1'', a_master_state 400 False (Val 400)), (''M2'', a_master_state 1004 True (Val 1004))]"

definition one_connected_master :: pglookout where
  "one_connected_master =
     (a_pglookout ''A'' 120 [])
       \<lparr>connected_master_nodes := [(''M'', a_master_state 1004 True (Val 1004))]\<rparr>"

definition two_lost_observers :: pglookout where
  "two_lost_observers =
     (a_pglookout ''A'' 120 [])\<lparr>disconnected_observer_nodes := [(''o1'', 900), (''o2'', 900)]\<rparr>"

definition stale_cluster_state :: "(string, node_state) dict" where
  "stale_cluster_state =
     [(''A'', a_standby_state 1000 ''1/2''), (''B'', a_master_state 940 False (Val 940))]"

definition fresh_observer_state :: "(string, observer_record) dict" where
  "fresh_observer_state =
     [(''obs1'', \<lparr>o_fetch_time = 1000, o_connection = True,
                  o_nodes = [(''B'', a_master_state 1000 True (Val 1000))]\<rparr>),
      (''obs2'', \<lparr>o_fetch_time = 1000, o_connection = True,
                  o_nodes = [(''B'', a_master_state 1000 True (Val 1000))]\<rparr>)]"

definition a_monitor :: cluster_monitor where
  "a_monitor =
     \<lparr>cluster_state = [],
      observer_state =
        [(''obs'', \<lparr>o_fetch_time = 90, o_connection = True,
                    o_nodes = [(''B'', a_master_state 90 True (Val 90))]\<rparr>)],
      known_replication_slots = None\<rparr>"

definition start_monitor :: cluster_monitor where
  "start_monitor = \<lparr>cluster_state = [], observer_state = [], known_replication_slots = None\<rparr>"

definition standby_row :: "instant \<Rightarrow> instant \<Rightarrow> db_row" where
  "standby_row t replayed =
     \<lparr>r_db_time = t, r_pg_is_in_recovery = True, r_pg_last_xact_replay_timestamp = Some replayed,
      r_pg_last_xlog_receive_location = Some ''1/2'', r_pg_last_xlog_replay_location = Some ''1/2'',
      r_replication_slots = None\<rparr>"

definition probed_once :: cluster_monitor where
  "probed_once = update_cluster_member_state ''B'' 100 1 (Some (standby_row 100 97)) start_monitor"

section \<open>Properties stated about the program\<close>

text \<open>
  A record keeps the lowest lag below the current one: when it has
  \<^verbatim>\<open>min_replication_time_lag\<close> and a \<^verbatim>\<open>replication_time_lag\<close> that is not null, the
  first is at most the second.
\<close>

definition record_lag_ok :: "node_state \<Rightarrow> bool" where
  "record_lag_ok r =
     (case (min_replication_time_lag r, replication_time_lag r) of
        (Val m, Val l) \<Rightarrow> m \<le> l
      | _ \<Rightarrow> True)"

definition lag_invariant :: "(string, node_state) dict \<Rightarrow> bool" where
  "lag_invariant cs = list_all (\<lambda>(p, r). record_lag_ok r) cs"

definition min_lag_of :: "(string, node_state) dict \<Rightarrow> string \<Rightarrow> real option" where
  "min_lag_of cs p =
     (case map_of cs p of None \<Rightarrow> None | Some r \<Rightarrow> get_field (min_replication_time_lag r))"

text \<open>
  The peers that \<^verbatim>\<open>create_node_map\<close> holds as connected masters, and the local records
  that make a peer one.
\<close>

definition connected_master_names :: "node_map \<Rightarrow> string set" where
  "connected_master_names nm = fst ` set (connected_master_nodes (pgl nm))"

definition locally_connected_master :: "node_state \<Rightarrow> bool" where
  "locally_connected_master state =
     (pg_is_in_recovery state \<noteq> Absent \<and> \<not> truthy_bool (pg_is_in_recovery state)
        \<and> connection state)"

text \<open>
  The node map of the scenario with the stale local record of \<open>B\<close>, after the local
  records were classified and before the observers are merged: \<open>B\<close> is a disconnected
  master.
\<close>

definition after_local_classification :: node_map where
  "after_local_classification =
     \<lparr>nm_standby_nodes = [(''A'', a_standby_state 1000 ''1/2'')], nm_master_node = No_master,
      pgl = a_pglookout ''A'' 120 [(''B'', a_master_state 940 False (Val 940))]\<rparr>"

text \<open>
  Every set of hosts that \<^verbatim>\<open>get_replication_positions\<close> records is finite and not empty.
\<close>

definition well_formed_positions :: "positions \<Rightarrow> bool" where
  "well_formed_positions known = list_all (\<lambda>(pos, hosts). finite hosts \<and> hosts \<noteq> {}) known"

text \<open>The hosts that a dictionary of replication positions records.\<close>

definition recorded_hosts :: "positions \<Rightarrow> string set" where
  "recorded_hosts known = \<Union> (snd ` set known)"

section \<open>The examples evaluated\<close>

lemma a_pglookout_sel [simp]:
  "connected_master_nodes (a_pglookout name timeout disconnected) = []"
  "disconnected_master_nodes (a_pglookout name timeout disconnected) = disconnected"
  "connected_observer_nodes (a_pglookout name timeout disconnected) = []"
  "disconnected_observer_nodes (a_pglookout name timeout disconnected) = []"
  "replication_lag_failover_timeout (a_pglookout name timeout disconnected) = timeout"
  "own_db (a_pglookout name timeout disconnected) = Some name"
  "never_promote_these_nodes (a_pglookout name timeout disconnected) = []"
  "failover_command (a_pglookout name timeout disconnected) = [''promote'']"
  "failover_sleep_time (config (a_pglookout name timeout disconnected)) = None"
  "monitor_config (a_pglookout name timeout disconnected) = Some empty_config"
  by (simp_all add: a_pglookout_def empty_config_def)

lemma a_pglookout_cleared [simp]:
  "(a_pglookout name timeout disconnected)\<lparr>replication_lag_over_warning_limit := False\<rparr>
     = a_pglookout name timeout disconnected"
  by (simp add: a_pglookout_def)

lemma a_world_sel [simp]:
  "utcnow a_world = 1005" "maintenance_mode_file_exists a_world = False" "return_code a_world = 0"
  by (simp_all add: a_world_def)

lemma a_standby_state_sel [simp]:
  "fetch_time (a_standby_state t lsn) = t"
  "connection (a_standby_state t lsn) = True"
  "pg_is_in_recovery (a_standby_state t lsn) = Val True"
  "pg_last_xlog_receive_location (a_standby_state t lsn) = Val lsn"
  "pg_last_xlog_replay_location (a_standby_state t lsn) = Val lsn"
  by (simp_all add: a_standby_state_def)

lemma a_master_state_sel [simp]:
  "fetch_time (a_master_state t c contact) = t"
  "connection (a_master_state t c contact) = c"
  "db_time (a_master_state t c contact) = contact"
  "pg_is_in_recovery (a_master_state t c contact) = Val False"
  by (simp_all add: a_master_state_def)

lemma offset_1_1: "convert_xlog_location_to_offset ''1/1'' = Some 4294967297"
  unfolding convert_xlog_location_to_offset_def
  by (simp add: parse_hex_def hex_digit_def)

lemma offset_1_2: "convert_xlog_location_to_offset ''1/2'' = Some 4294967298"
  unfolding convert_xlog_location_to_offset_def
  by (simp add: parse_hex_def hex_digit_def numeral_2_eq_2 [symmetric])

lemma xlog_pos_of_a_standby_state:
  "xlog_pos_of (a_standby_state t lsn) =
     (if lsn = [] then Inr 0
      else case convert_xlog_location_to_offset lsn of
             None \<Rightarrow> Inl (ValueError ''xlog_location'') | Some pos \<Rightarrow> Inr pos)"
  by (simp add: xlog_pos_of_def)

section \<open>The observer client and clock skew\<close>

text \<open>
  C5. An answer whose \<^verbatim>\<open>Date\<close> header lies more than 5 seconds away from the local
  time is to be discarded whole, whether the remote clock is behind or ahead. The code
  computes the difference as local time minus remote time and compares it with 5 seconds
  without taking the absolute value, so an answer from a clock that is ahead is kept:
  with the header 10 seconds ahead of the local time the fetch returns a record with
  \<^verbatim>\<open>connection\<close> true that holds the whole body, while with the header 10 seconds
  behind it returns nothing.
\<close>

theorem time_skew_ahead_is_merged:
  "fetch_observer_state_inner now (Response (Some (now + 10)) (Some nodes))
     = Some \<lparr>o_fetch_time = now, o_connection = True, o_nodes = dict_update [] nodes\<rparr>
   \<and> fetch_observer_state_inner now (Response (Some (now - 10)) (Some nodes)) = None"
  by (simp add: fetch_observer_state_inner_def)

text \<open>
  The claim of C6 fails where the observer had a record with \<^verbatim>\<open>connection\<close> true before
  the discarded answer (the record still says true afterwards), and where it had no
  record (there is none afterwards either).
\<close>

theorem discarded_response_counterexample:
  "map_option o_connection
     (map_of (observer_state
        (fetch_observer_state ''obs'' 100 (Response (Some 90) (Some [])) a_monitor)) ''obs'')
     = Some True
   \<and> map_of (observer_state
        (fetch_observer_state ''obs'' 100 (Response (Some 90) (Some [])) start_monitor)) ''obs''
     = None"
  by (simp add: fetch_observer_state_def fetch_observer_state_inner_def a_monitor_def
      start_monitor_def)

text \<open>
  C6, as amended. When the \<^verbatim>\<open>Date\<close> header of an observer's answer is more than 5
  seconds behind the local clock (10 seconds, say) and the body decodes, the fetch returns
  nothing and \<^verbatim>\<open>fetch_observer_state\<close> leaves the observer state map as it was: an
  existing record keeps its \<^verbatim>\<open>connection\<close> value and no record is made for an observer
  that had none.
\<close>

theorem discarded_response_leaves_state:
  assumes "now - remote_server_time > 5"
  shows "fetch_observer_state_inner now (Response (Some remote_server_time) (Some nodes)) = None
     \<and> fetch_observer_state instance now (Response (Some remote_server_time) (Some nodes)) self
         = self"
  using assms by (simp add: fetch_observer_state_def fetch_observer_state_inner_def)

theorem discarded_response_leaves_state_witness:
  "(100::real) - 90 > 5
   \<and> fetch_observer_state_inner 100 (Response (Some 90) (Some [])) = None
   \<and> fetch_observer_state ''obs'' 100 (Response (Some 90) (Some [])) a_monitor = a_monitor"
proof -
  have skew: "(100::real) - 90 > 5" by simp
  from discarded_response_leaves_state [OF skew, of "[]" "''obs''" a_monitor] skew
  show ?thesis by simp
qed

section \<open>The lowest replication lag\<close>

lemma list_all_update:
  "list_all P al \<Longrightarrow> P (k, v) \<Longrightarrow> list_all P (AList.update k v al)"
  by (induction al) auto

lemma list_all_delete: "list_all P al \<Longrightarrow> list_all P (AList.delete k al)"
  by (induction al) auto

lemma list_all_map_of: "list_all P al \<Longrightarrow> map_of al k = Some v \<Longrightarrow> P (k, v)"
  by (induction al) (auto split: if_splits)

lemma result_min_absent:
  "min_replication_time_lag (query_cluster_member_state now f_result) = Absent"
  by (simp add: query_cluster_member_state_def base_result_def parse_status_query_result_def
      Let_def split: option.splits)

lemma new_entry_ok:
  "min_replication_time_lag result = Absent
     \<Longrightarrow> record_lag_ok (updated_entry None result mono_now)"
  by (cases "replication_time_lag result")
     (simp_all add: updated_entry_def record_lag_ok_def Let_def)

lemma old_entry_ok:
  "min_replication_time_lag result = Absent \<Longrightarrow> record_lag_ok old
     \<Longrightarrow> record_lag_ok (updated_entry (Some old) result mono_now)"
  by (cases "replication_time_lag result"; cases "min_replication_time_lag old";
      cases "replication_time_lag old")
     (simp_all add: updated_entry_def record_lag_ok_def Let_def update_node_state_def)

lemma old_entry_min:
  "min_replication_time_lag result = Absent \<Longrightarrow> min_replication_time_lag old = Val m
     \<Longrightarrow> \<exists>m'. min_replication_time_lag (updated_entry (Some old) result mono_now) = Val m'
            \<and> m' \<le> m"
  by (cases "replication_time_lag result")
     (simp_all add: updated_entry_def Let_def update_node_state_def)

lemma cluster_state_fetch:
  "cluster_state (fetch_observer_state instance now http self) = cluster_state self"
  by (simp add: fetch_observer_state_def split: option.splits)

lemma probe_keeps_lag_invariant:
  assumes "lag_invariant (cluster_state self)"
  shows "lag_invariant
           (cluster_state (update_cluster_member_state instance now mono_now f_result self))"
proof -
  let ?result = "query_cluster_member_state now f_result"
  let ?entry = "updated_entry (map_of (cluster_state self) instance) ?result mono_now"
  have "record_lag_ok ?entry"
  proof (cases "map_of (cluster_state self) instance")
    case None
    then show ?thesis by (simp add: new_entry_ok result_min_absent)
  next
    case (Some old)
    with assms have "record_lag_ok old"
      unfolding lag_invariant_def by (auto dest: list_all_map_of)
    with Some show ?thesis by (simp add: old_entry_ok result_min_absent)
  qed
  with assms show ?thesis
    unfolding lag_invariant_def update_cluster_member_state_def Let_def
    by (simp add: list_all_update)
qed

lemma reachable_lag_invariant: "reachable self \<Longrightarrow> lag_invariant (cluster_state self)"
proof (induction rule: reachable.induct)
  case start
  show ?case by (simp add: lag_invariant_def)
next
  case (probe self inst now mono_now f_result)
  then show ?case by (simp add: probe_keeps_lag_invariant)
next
  case (fetch self inst now http)
  then show ?case by (simp add: cluster_state_fetch)
next
  case (evict self inst)
  then show ?case by (simp add: remove_leftover_state_def lag_invariant_def list_all_delete)
qed

lemma probe_min_lag_of:
  assumes "min_lag_of (cluster_state self) p = Some m"
  shows "\<exists>m'. min_lag_of
                 (cluster_state (update_cluster_member_state instance now mono_now f_result self)) p
               = Some m' \<and> m' \<le> m"
proof (cases "p = instance")
  case False
  with assms show ?thesis
    by (simp add: min_lag_of_def update_cluster_member_state_def Let_def update_conv')
next
  case True
  from assms obtain old where old: "map_of (cluster_state self) p = Some old"
    and "get_field (min_replication_time_lag old) = Some m"
    by (auto simp: min_lag_of_def split: option.splits)
  then have "min_replication_time_lag old = Val m"
    by (cases "min_replication_time_lag old") simp_all
  from old_entry_min [OF result_min_absent this]
  obtain m' where "min_replication_time_lag
      (updated_entry (Some old) (query_cluster_member_state now f_result) mono_now) = Val m'"
    and "m' \<le> m"
    by blast
  with True old show ?thesis
    by (simp add: min_lag_of_def update_cluster_member_state_def Let_def update_conv')
qed

lemma probed_once_min: "min_lag_of (cluster_state probed_once) ''B'' = Some 3"
  by (simp add: probed_once_def start_monitor_def update_cluster_member_state_def
      updated_entry_def query_cluster_member_state_def parse_status_query_result_def
      base_result_def standby_row_def min_lag_of_def Let_def)

lemma reachable_step: "reachable self \<Longrightarrow> reachable (do_step step self)"
  by (cases step) (simp_all add: reachable.probe reachable.fetch reachable.evict)

lemma reachable_run: "reachable self \<Longrightarrow> reachable (run_monitor steps self)"
  unfolding run_monitor_def
  by (induction steps arbitrary: self) (simp_all add: reachable_step)

lemma step_min_lag_of:
  assumes "step \<noteq> Evict p" and "min_lag_of (cluster_state self) p = Some m"
  shows "\<exists>m'. min_lag_of (cluster_state (do_step step self)) p = Some m' \<and> m' \<le> m"
proof (cases step)
  case (Probe inst now mono_now f_result)
  with assms(2) show ?thesis by (simp add: probe_min_lag_of)
next
  case (Fetch inst now http)
  with assms(2) show ?thesis by (simp add: cluster_state_fetch)
next
  case (Evict inst)
  with assms have "inst \<noteq> p" by simp
  with Evict assms(2) show ?thesis
    by (simp add: remove_leftover_state_def min_lag_of_def)
qed

lemma run_min_lag_of:
  assumes "Evict p \<notin> set steps" and "min_lag_of (cluster_state self) p = Some m"
  shows "\<exists>m'. min_lag_of (cluster_state (run_monitor steps self)) p = Some m' \<and> m' \<le> m"
  using assms
proof (induction steps arbitrary: self m)
  case Nil
  then show ?case by (simp add: run_monitor_def)
next
  case (Cons step steps)
  from Cons.prems have "step \<noteq> Evict p" and rest: "Evict p \<notin> set steps" by auto
  from step_min_lag_of [OF this(1) Cons.prems(2)]
  obtain m1 where m1: "min_lag_of (cluster_state (do_step step self)) p = Some m1"
    and "m1 \<le> m"
    by blast
  from Cons.IH [OF rest m1]
  obtain m' where "min_lag_of (cluster_state (run_monitor steps (do_step step self))) p
      = Some m'" and "m' \<le> m1"
    by blast
  with \<open>m1 \<le> m\<close> show ?case
    by (auto simp: run_monitor_def)
qed

lemma probed_once_reachable: "reachable probed_once"
  unfolding probed_once_def start_monitor_def by (intro reachable.probe reachable.start)

lemmas probe_defs =
  update_cluster_member_state_def updated_entry_def query_cluster_member_state_def
  parse_status_query_result_def base_result_def standby_row_def min_lag_of_def
  update_node_state_def remove_leftover_state_def

text \<open>
  The claim of C7 fails for its second half on runs with an eviction: a peer whose lowest
  lag is 3 seconds leaves the configuration, its entry is removed, and when it is probed
  again with a lag of 8 seconds its \<^verbatim>\<open>min_replication_time_lag\<close> is 8.
\<close>

theorem eviction_counterexample:
  "reachable probed_once
   \<and> min_lag_of (cluster_state probed_once) ''B'' = Some 3
   \<and> reachable (update_cluster_member_state ''B'' 105 6 (Some (standby_row 105 97))
        (remove_leftover_state ''B'' probed_once))
   \<and> min_lag_of (cluster_state
        (update_cluster_member_state ''B'' 105 6 (Some (standby_row 105 97))
           (remove_leftover_state ''B'' probed_once))) ''B'' = Some 8"
proof -
  have "min_lag_of (cluster_state
        (update_cluster_member_state ''B'' 105 6 (Some (standby_row 105 97))
           (remove_leftover_state ''B'' probed_once))) ''B'' = Some 8"
    by (simp add: probed_once_def start_monitor_def probe_defs Let_def)
  then show ?thesis
    by (simp add: probed_once_reachable probed_once_min reachable.probe reachable.evict)
qed

text \<open>
  C7, as amended. In every state that the monitor can reach, after a call of
  \<^verbatim>\<open>update_cluster_member_state\<close>, and after any further run, every record of the
  cluster state that has \<^verbatim>\<open>min_replication_time_lag\<close> and a \<^verbatim>\<open>replication_time_lag\<close>
  that is not null has the first at most the second. The \<^verbatim>\<open>min_replication_time_lag\<close>
  of a peer never increases across a run in which the peer is not evicted; an eviction
  removes the entry, and the lowest lag starts afresh with the next probe.
\<close>

theorem min_replication_time_lag_bound:
  assumes "reachable self"
  shows "lag_invariant
           (cluster_state (update_cluster_member_state instance now mono_now f_result self))
     \<and> lag_invariant (cluster_state (run_monitor steps self))
     \<and> (\<forall>p m. Evict p \<notin> set steps \<and> min_lag_of (cluster_state self) p = Some m \<longrightarrow>
           (\<exists>m'. min_lag_of (cluster_state (run_monitor steps self)) p = Some m' \<and> m' \<le> m))"
  using assms
  by (simp add: probe_keeps_lag_invariant reachable_lag_invariant reachable_run run_min_lag_of)

theorem min_replication_time_lag_bound_witness:
  "reachable probed_once
   \<and> Evict ''B'' \<notin> set [Fetch ''obs'' 104 ConnectionError, Evict ''C'',
                          Probe ''B'' 105 6 (Some (standby_row 105 97))]
   \<and> min_lag_of (cluster_state probed_once) ''B'' = Some 3
   \<and> min_lag_of (cluster_state
        (run_monitor [Fetch ''obs'' 104 ConnectionError, Evict ''C'',
                      Probe ''B'' 105 6 (Some (standby_row 105 97))] probed_once)) ''B''
      = Some 3
   \<and> lag_invariant (cluster_state
        (run_monitor [Fetch ''obs'' 104 ConnectionError, Evict ''C'',
                      Probe ''B'' 105 6 (Some (standby_row 105 97))] probed_once))"
proof -
  let ?steps = "[Fetch ''obs'' 104 ConnectionError, Evict ''C'',
                 Probe ''B'' 105 6 (Some (standby_row 105 97))]"
  have kept: "Evict ''B'' \<notin> set ?steps" by simp
  have after: "min_lag_of (cluster_state (run_monitor ?steps probed_once)) ''B'' = Some 3"
    by (simp add: run_monitor_def probed_once_def start_monitor_def probe_defs Let_def
        fetch_observer_state_def fetch_observer_state_inner_def failed_fetch_def)
  from min_replication_time_lag_bound [OF probed_once_reachable, of "''B''" 105 6
      "Some (standby_row 105 97)" ?steps] kept probed_once_min after probed_once_reachable
  show ?thesis by simp
qed

section \<open>Reloading the configuration\<close>



section \<open>Masters seen by observers\<close>

text \<open>
  The claim of C1 fails in its own scenario: the local record of \<open>B\<close> is 60 seconds old
  with \<^verbatim>\<open>connection\<close> false, two observers report \<open>B\<close> with \<^verbatim>\<open>fetch_time\<close> now,
  \<^verbatim>\<open>connection\<close> true and \<^verbatim>\<open>pg_is_in_recovery\<close> false, and \<open>B\<close> ends up in the
  disconnected masters, not in the connected ones.
\<close>

theorem observed_master_counterexample:
  "map_of (connected_master_nodes
      (fst (snd (create_node_map (a_pglookout ''A'' 120 []) stale_cluster_state
                   fresh_observer_state)))) ''B'' = None
   \<and> map_of (disconnected_master_nodes
      (fst (snd (create_node_map (a_pglookout ''A'' 120 []) stale_cluster_state
                   fresh_observer_state)))) ''B'' = Some (a_master_state 1000 True (Val 1000))"
  by (simp add: create_node_map_def stale_cluster_state_def fresh_observer_state_def
      merge_observer_def merge_observed_node_def classify_local_node_def Let_def)

text \<open>
  An observer's report never changes which peers are connected masters: the names in
  \<^verbatim>\<open>connected_master_nodes\<close> are those of the local records that say so.
\<close>

lemma update_known_key:
  "map_of al k = Some v \<Longrightarrow> fst ` set (AList.update k v' al) = fst ` set al"
  by (auto simp: dom_update dest: map_of_SomeD intro: rev_image_eqI)

lemma merge_observed_node_names:
  "connected_master_names (merge_observed_node cluster_copy item nm) = connected_master_names nm"
  by (auto simp: connected_master_names_def merge_observed_node_def Let_def update_known_key
      split: option.splits)

lemma fold_merge_observed_node_names:
  "connected_master_names (fold (merge_observed_node cluster_copy) items nm)
     = connected_master_names nm"
  by (induction items arbitrary: nm) (simp_all add: merge_observed_node_names)

lemma merge_observer_names:
  "connected_master_names (merge_observer cluster_copy item nm) = connected_master_names nm"
  by (simp add: merge_observer_def Let_def fold_merge_observed_node_names)
     (simp add: connected_master_names_def)

lemma fold_merge_observer_names:
  "connected_master_names (fold (merge_observer cluster_copy) observers nm)
     = connected_master_names nm"
  by (induction observers arbitrary: nm) (simp_all add: merge_observer_names)

lemma classify_local_node_names:
  "connected_master_names (classify_local_node (host, state) nm)
     = (if locally_connected_master state then insert host (connected_master_names nm)
        else connected_master_names nm)"
  by (auto simp: connected_master_names_def classify_local_node_def locally_connected_master_def
      Let_def dom_update)

lemma fold_classify_local_node_names:
  "connected_master_names (fold classify_local_node cluster_copy nm)
     = connected_master_names nm
       \<union> {host. \<exists>state. (host, state) \<in> set cluster_copy \<and> locally_connected_master state}"
proof (induction cluster_copy arbitrary: nm)
  case Nil
  show ?case by simp
next
  case (Cons item rest)
  obtain host state where item: "item = (host, state)" by (cases item)
  show ?case
    unfolding item by (auto simp: Cons.IH classify_local_node_names)
qed

lemma connected_masters_are_local:
  "fst ` set (connected_master_nodes (fst (snd (create_node_map self cluster_copy observer_copy))))
     = {host. \<exists>state. (host, state) \<in> set cluster_copy \<and> locally_connected_master state}"
proof -
  let ?start = "\<lparr>nm_standby_nodes = [], nm_master_node = No_master,
                    pgl = self\<lparr>connected_master_nodes := [], disconnected_master_nodes := [],
                                 connected_observer_nodes := [],
                                 disconnected_observer_nodes := []\<rparr>\<rparr>"
  let ?nm = "fold (merge_observer cluster_copy) observer_copy
                 (fold classify_local_node cluster_copy ?start)"
  have "connected_master_nodes (fst (snd (create_node_map self cluster_copy observer_copy)))
      = connected_master_nodes (pgl ?nm)"
    by (simp add: create_node_map_def Let_def split: list.splits)
  then have "fst ` set (connected_master_nodes
        (fst (snd (create_node_map self cluster_copy observer_copy))))
      = connected_master_names ?nm"
    by (simp add: connected_master_names_def)
  also have "\<dots> = {host. \<exists>state. (host, state) \<in> set cluster_copy \<and> locally_connected_master state}"
    by (simp add: fold_merge_observer_names fold_classify_local_node_names)
       (simp add: connected_master_names_def)
  finally show ?thesis .
qed

text \<open>
  C1, as amended. In \<^verbatim>\<open>create_node_map\<close>, for a peer of the own cluster that an observer
  reports with \<^verbatim>\<open>pg_is_in_recovery\<close> false, with a \<^verbatim>\<open>fetch_time\<close> not older than the
  local one, and that is not the local node, the observed record is stored in the
  connected masters when the entry that the connected masters hold for the peer at that
  moment has \<^verbatim>\<open>connection\<close> true, and in the disconnected masters otherwise (also when
  the connected masters hold no entry for the peer); the \<^verbatim>\<open>connection\<close> field of the
  observed record plays no part. So the connected masters that \<^verbatim>\<open>create_node_map\<close>
  leaves are exactly the peers whose local record has \<^verbatim>\<open>pg_is_in_recovery\<close> false and
  \<^verbatim>\<open>connection\<close> true. In the scenario with the stale local record the master
  selection returns \<open>B\<close> with the observer's record, taken from the disconnected
  masters, while the connected masters are empty.
\<close>

theorem observed_master_placement:
  assumes "map_of cluster_copy host = Some own"
    and "pg_is_in_recovery db_state = Val False"
    and "fetch_time db_state \<ge> fetch_time own"
    and "Some host \<noteq> own_db (pgl nm)"
  shows
    "(let connected = (case map_of (connected_master_nodes (pgl nm)) host of
                         None \<Rightarrow> False | Some m \<Rightarrow> connection m);
          nm' = merge_observed_node cluster_copy (host, db_state) nm
      in connected_master_nodes (pgl nm')
           = (if connected then AList.update host db_state (connected_master_nodes (pgl nm))
              else connected_master_nodes (pgl nm))
         \<and> disconnected_master_nodes (pgl nm')
           = (if connected then disconnected_master_nodes (pgl nm)
              else AList.update host db_state (disconnected_master_nodes (pgl nm))))
     \<and> fst ` set (connected_master_nodes
                     (fst (snd (create_node_map self cluster_copy observer_copy))))
       = {host. \<exists>state. (host, state) \<in> set cluster_copy \<and> locally_connected_master state}
     \<and> create_node_map (a_pglookout ''A'' 120 []) stale_cluster_state fresh_observer_state
       = ((Some ''B'', Master (a_master_state 1000 True (Val 1000)),
           [(''A'', a_standby_state 1000 ''1/2'')]),
          a_pglookout ''A'' 120 [(''B'', a_master_state 1000 True (Val 1000))]
            \<lparr>connected_observer_nodes := [(''obs1'', 1000), (''obs2'', 1000)]\<rparr>,
          [])"
proof (intro conjI)
  from assms
  show "let connected = (case map_of (connected_master_nodes (pgl nm)) host of
                         None \<Rightarrow> False | Some m \<Rightarrow> connection m);
          nm' = merge_observed_node cluster_copy (host, db_state) nm
      in connected_master_nodes (pgl nm')
           = (if connected then AList.update host db_state (connected_master_nodes (pgl nm))
              else connected_master_nodes (pgl nm))
         \<and> disconnected_master_nodes (pgl nm')
           = (if connected then disconnected_master_nodes (pgl nm)
              else AList.update host db_state (disconnected_master_nodes (pgl nm)))"
    by (simp add: merge_observed_node_def Let_def split: option.splits)
next
  show "fst ` set (connected_master_nodes
                     (fst (snd (create_node_map self cluster_copy observer_copy))))
       = {host. \<exists>state. (host, state) \<in> set cluster_copy \<and> locally_connected_master state}"
    by (rule connected_masters_are_local)
next
  show "create_node_map (a_pglookout ''A'' 120 []) stale_cluster_state fresh_observer_state
       = ((Some ''B'', Master (a_master_state 1000 True (Val 1000)),
           [(''A'', a_standby_state 1000 ''1/2'')]),
          a_pglookout ''A'' 120 [(''B'', a_master_state 1000 True (Val 1000))]
            \<lparr>connected_observer_nodes := [(''obs1'', 1000), (''obs2'', 1000)]\<rparr>,
          [])"
    by (simp add: create_node_map_def stale_cluster_state_def fresh_observer_state_def
        merge_observer_def merge_observed_node_def classify_local_node_def Let_def)
       (simp add: a_pglookout_def)
qed

theorem observed_master_placement_witness:
  "map_of stale_cluster_state ''B'' = Some (a_master_state 940 False (Val 940))
   \<and> pg_is_in_recovery (a_master_state 1000 True (Val 1000)) = Val False
   \<and> connection (a_master_state 1000 True (Val 1000))
   \<and> fetch_time (a_master_state 1000 True (Val 1000)) \<ge> fetch_time (a_master_state 940 False (Val 940))
   \<and> Some ''B'' \<noteq> own_db (pgl after_local_classification)
   \<and> connected_master_nodes (pgl (merge_observed_node stale_cluster_state
         (''B'', a_master_state 1000 True (Val 1000)) after_local_classification)) = []
   \<and> disconnected_master_nodes (pgl (merge_observed_node stale_cluster_state
         (''B'', a_master_state 1000 True (Val 1000)) after_local_classification))
       = [(''B'', a_master_state 1000 True (Val 1000))]"
proof -
  have local: "map_of stale_cluster_state ''B'' = Some (a_master_state 940 False (Val 940))"
    by (simp add: stale_cluster_state_def)
  have master: "pg_is_in_recovery (a_master_state 1000 True (Val 1000)) = Val False"
    by simp
  have fresh: "fetch_time (a_master_state 1000 True (Val 1000))
      \<ge> fetch_time (a_master_state 940 False (Val 940))"
    by simp
  have other: "Some ''B'' \<noteq> own_db (pgl after_local_classification)"
    by (simp add: after_local_classification_def)
  from observed_master_placement [OF local master fresh other] local master fresh other
  show ?thesis
    by (simp add: after_local_classification_def Let_def)
qed

section \<open>The failover decision on the examples\<close>

lemmas decision_defs =
  do_failover_decision_def decide_for_positions_def
  have_we_been_in_contact_with_the_master_within_the_failover_timeout_def
  total_amount_of_nodes_def size_of_known_state_def

lemma failover_invoked_simps [simp]:
  "failover_invoked (Inl e) = False"
  "failover_invoked (Inr (d, s, [])) = False"
  "failover_invoked (Inr (d, s, Execute c # events)) = True"
  by (simp_all add: failover_invoked_def)

lemma lone_positions:
  "get_replication_positions (a_pglookout name timeout disconnected) 1005 lone_standby
     = Inr [(4294967298, {''A''})]"
  by (simp add: get_replication_positions_def counts_for_failover_def add_position_def
      xlog_pos_of_a_standby_state offset_1_2 lone_standby_def)

lemma twin_positions:
  "get_replication_positions (a_pglookout name timeout disconnected) 1005 twin_standbys
     = Inr [(4294967298, {''A'', ''B''})]"
  by (simp add: get_replication_positions_def counts_for_failover_def add_position_def
      xlog_pos_of_a_standby_state offset_1_2 twin_standbys_def insert_commute)

lemma furthest_lone: "furthest_along_host [(pos, {h})] = h"
  by (simp add: furthest_along_host_def)

lemma furthest_twin: "furthest_along_host [(pos, {''A'', ''B''})] = ''A''"
  by (simp add: furthest_along_host_def)

lemma lone_decision:
  "do_failover_decision a_world (a_pglookout ''A'' 120 []) (Some (a_standby_state 1000 ''1/2''))
     lone_standby
   = Inr (Failover 0, a_pglookout ''A'' 120 [],
          [Execute [''promote''], Create_alert_file ''failover_has_happened'', Sleep 0,
           Delete_alert_file ''replication_delay_warning''])"
  by (simp add: decision_defs lone_positions furthest_lone) (simp add: lone_standby_def)

lemma two_lost_decision:
  "do_failover_decision a_world (a_pglookout ''A'' 120 two_lost_masters)
     (Some (a_standby_state 1000 ''1/2'')) lone_standby
   = Inr (Failover 0, a_pglookout ''A'' 120 two_lost_masters,
          [Execute [''promote''], Create_alert_file ''failover_has_happened'', Sleep 0,
           Delete_alert_file ''replication_delay_warning''])"
  by (simp add: decision_defs lone_positions furthest_lone two_lost_masters_def)
     (simp add: lone_standby_def)

lemma positions_from_ignore_masters:
  "get_replication_positions_from (self\<lparr>disconnected_master_nodes := d\<rparr>) now known nodes
     = get_replication_positions_from self now known nodes"
  by (induction nodes arbitrary: known) (auto simp: counts_for_failover_def split: sum.splits)

lemma positions_from_ignore_observers:
  "get_replication_positions_from (self\<lparr>disconnected_observer_nodes := d\<rparr>) now known nodes
     = get_replication_positions_from self now known nodes"
  by (induction nodes arbitrary: known) (auto simp: counts_for_failover_def split: sum.splits)

lemma two_lost_observers_positions:
  "get_replication_positions two_lost_observers 1005 lone_standby = Inr [(4294967298, {''A''})]"
  using lone_positions [of "''A''" 120 "[]"]
  by (simp add: two_lost_observers_def get_replication_positions_def
      positions_from_ignore_observers)

lemma masters_still_connected_not_invoked:
  "connected_master_nodes self \<noteq> []
     \<or> have_we_been_in_contact_with_the_master_within_the_failover_timeout self (utcnow w)
   \<Longrightarrow> do_failover_decision w self own_state standby_nodes
       = Inr (Masters_still_connected, self, [])"
  by (auto simp: do_failover_decision_def)

lemma contact_first_only:
  "disconnected_master_nodes self = (host, first) # rest \<Longrightarrow>
   have_we_been_in_contact_with_the_master_within_the_failover_timeout
     (self\<lparr>disconnected_master_nodes := [(host, first)]\<rparr>) now
   = have_we_been_in_contact_with_the_master_within_the_failover_timeout self now"
  by (simp add: have_we_been_in_contact_with_the_master_within_the_failover_timeout_def)

lemma decide_ignores_masters:
  "failover_invoked (decide_for_positions w (self\<lparr>disconnected_master_nodes := d\<rparr>)
      own_state standby_nodes known)
   = failover_invoked (decide_for_positions w self own_state standby_nodes known)"
  by (simp add: decide_for_positions_def failover_invoked_def total_amount_of_nodes_def
      size_of_known_state_def Let_def split: option.splits)

lemma rest_of_masters_ignored:
  assumes "disconnected_master_nodes self = (host, first) # rest"
  shows "failover_invoked (do_failover_decision w self own_state standby_nodes)
       = failover_invoked (do_failover_decision w
            (self\<lparr>disconnected_master_nodes := [(host, first)]\<rparr>) own_state standby_nodes)"
proof (cases "connected_master_nodes self \<noteq> []
     \<or> have_we_been_in_contact_with_the_master_within_the_failover_timeout self (utcnow w)")
  case True
  with assms show ?thesis
    by (simp add: do_failover_decision_def contact_first_only)
next
  case False
  with assms show ?thesis
    by (cases "get_replication_positions self (utcnow w) standby_nodes")
       (simp_all add: do_failover_decision_def contact_first_only get_replication_positions_def
          positions_from_ignore_masters decide_ignores_masters)
qed

section \<open>Gate 1: masters that are still there\<close>

text \<open>
  The claim of C2 fails for its quantifier over every disconnected master: with two
  disconnected masters of which the first was last heard of 605 seconds ago and the second
  one second ago, the timeout being 120 seconds, the failover command is run.
\<close>

theorem every_disconnected_master_counterexample:
  "map_of (disconnected_master_nodes (a_pglookout ''A'' 120 two_lost_masters)) ''M2''
     = Some (a_master_state 1004 True (Val 1004))
   \<and> db_time (a_master_state 1004 True (Val 1004)) = Val 1004
   \<and> utcnow a_world - 1004
       < replication_lag_failover_timeout (a_pglookout ''A'' 120 two_lost_masters)
   \<and> failover_invoked
       (do_failover_decision a_world (a_pglookout ''A'' 120 two_lost_masters)
          (Some (a_standby_state 1000 ''1/2'')) lone_standby)"
  by (simp add: two_lost_decision) (simp add: two_lost_masters_def)

text \<open>
  C2, as amended. \<^verbatim>\<open>do_failover_decision\<close> never runs the failover command when there
  is a connected master, nor when the first disconnected master, in the order of the
  dictionary, has a \<^verbatim>\<open>db_time\<close> less than \<^verbatim>\<open>max_failover_replication_time_lag\<close> seconds
  before now. The disconnected masters after the first are not looked at: the decision
  is the same without them.
\<close>

theorem master_presence_gate:
  "(connected_master_nodes self \<noteq> [] \<longrightarrow>
      \<not> failover_invoked (do_failover_decision w self own_state standby_nodes))
   \<and> (\<forall>host first rest t.
        disconnected_master_nodes self = (host, first) # rest \<and> db_time first = Val t
          \<and> utcnow w - t < replication_lag_failover_timeout self \<longrightarrow>
        \<not> failover_invoked (do_failover_decision w self own_state standby_nodes))
   \<and> (\<forall>host first rest.
        disconnected_master_nodes self = (host, first) # rest \<longrightarrow>
        failover_invoked (do_failover_decision w self own_state standby_nodes)
          = failover_invoked (do_failover_decision w
              (self\<lparr>disconnected_master_nodes := [(host, first)]\<rparr>) own_state standby_nodes))"
proof (intro conjI allI impI)
  assume "connected_master_nodes self \<noteq> []"
  then show "\<not> failover_invoked (do_failover_decision w self own_state standby_nodes)"
    by (simp add: masters_still_connected_not_invoked)
next
  fix host first rest t
  assume "disconnected_master_nodes self = (host, first) # rest \<and> db_time first = Val t
          \<and> utcnow w - t < replication_lag_failover_timeout self"
  then have "have_we_been_in_contact_with_the_master_within_the_failover_timeout self (utcnow w)"
    by (simp add: have_we_been_in_contact_with_the_master_within_the_failover_timeout_def)
  then show "\<not> failover_invoked (do_failover_decision w self own_state standby_nodes)"
    by (simp add: masters_still_connected_not_invoked)
next
  fix host first rest
  assume "disconnected_master_nodes self = (host, first) # rest"
  then show "failover_invoked (do_failover_decision w self own_state standby_nodes)
          = failover_invoked (do_failover_decision w
              (self\<lparr>disconnected_master_nodes := [(host, first)]\<rparr>) own_state standby_nodes)"
    by (rule rest_of_masters_ignored)
qed

theorem master_presence_gate_witness:
  "\<not> failover_invoked
       (do_failover_decision a_world one_connected_master
          (Some (a_standby_state 1000 ''1/2'')) lone_standby)
   \<and> \<not> failover_invoked
       (do_failover_decision a_world
          (a_pglookout ''A'' 120 [(''M'', a_master_state 1000 False (Val 1000))])
          (Some (a_standby_state 1000 ''1/2'')) lone_standby)
   \<and> failover_invoked
       (do_failover_decision a_world
          ((a_pglookout ''A'' 120 two_lost_masters)
             \<lparr>disconnected_master_nodes := [(''M1'', a_master_state 400 False (Val 400))]\<rparr>)
          (Some (a_standby_state 1000 ''1/2'')) lone_standby)"
proof -
  have connected: "connected_master_nodes one_connected_master \<noteq> []"
    by (simp add: one_connected_master_def)
  have recent: "disconnected_master_nodes
        (a_pglookout ''A'' 120 [(''M'', a_master_state 1000 False (Val 1000))])
      = (''M'', a_master_state 1000 False (Val 1000)) # []
    \<and> db_time (a_master_state 1000 False (Val 1000)) = Val 1000
    \<and> utcnow a_world - 1000
        < replication_lag_failover_timeout
            (a_pglookout ''A'' 120 [(''M'', a_master_state 1000 False (Val 1000))])"
    by simp
  have two: "disconnected_master_nodes (a_pglookout ''A'' 120 two_lost_masters)
      = (''M1'', a_master_state 400 False (Val 400))
        # [(''M2'', a_master_state 1004 True (Val 1004))]"
    by (simp add: two_lost_masters_def)
  have invoked: "failover_invoked
       (do_failover_decision a_world (a_pglookout ''A'' 120 two_lost_masters)
          (Some (a_standby_state 1000 ''1/2'')) lone_standby)"
    by (simp add: two_lost_decision)
  from master_presence_gate [of one_connected_master a_world
      "Some (a_standby_state 1000 ''1/2'')" lone_standby] connected
  have first: "\<not> failover_invoked
       (do_failover_decision a_world one_connected_master
          (Some (a_standby_state 1000 ''1/2'')) lone_standby)"
    by blast
  from master_presence_gate
      [of "a_pglookout ''A'' 120 [(''M'', a_master_state 1000 False (Val 1000))]" a_world
        "Some (a_standby_state 1000 ''1/2'')" lone_standby] recent
  have second: "\<not> failover_invoked
       (do_failover_decision a_world
          (a_pglookout ''A'' 120 [(''M'', a_master_state 1000 False (Val 1000))])
          (Some (a_standby_state 1000 ''1/2'')) lone_standby)"
    by blast
  from master_presence_gate [of "a_pglookout ''A'' 120 two_lost_masters" a_world
      "Some (a_standby_state 1000 ''1/2'')" lone_standby] two invoked
  have third: "failover_invoked
       (do_failover_decision a_world
          ((a_pglookout ''A'' 120 two_lost_masters)
             \<lparr>disconnected_master_nodes := [(''M1'', a_master_state 400 False (Val 400))]\<rparr>)
          (Some (a_standby_state 1000 ''1/2'')) lone_standby)"
    by blast
  from first second third show ?thesis by blast
qed

section \<open>Gate 6: the quorum\<close>

text \<open>
  The claim of C3 fails at exactly half: one standby (the local node), no observers and an
  empty never-promote list give a total of 2 and a known state of 1, and the failover
  command is run.
\<close>

theorem exactly_half_counterexample:
  "get_replication_positions (a_pglookout ''A'' 120 []) (utcnow a_world) lone_standby
     = Inr [(4294967298, {''A''})]
   \<and> size_of_known_state (a_pglookout ''A'' 120 []) [(4294967298, {''A''})] = 1
   \<and> total_amount_of_nodes (a_pglookout ''A'' 120 []) lone_standby = 2
   \<and> failover_invoked
       (do_failover_decision a_world (a_pglookout ''A'' 120 [])
          (Some (a_standby_state 1000 ''1/2'')) lone_standby)"
  by (simp add: lone_decision lone_positions size_of_known_state_def total_amount_of_nodes_def)
     (simp add: lone_standby_def)

text \<open>
  C3, as amended. With total = |standbys| + 1 - |never_promote| + |connected observers|
  + |disconnected observers| and known = (number of standbys with a recorded replication
  position) + |connected observers|, the failover command is not run whenever
  known < total/2. When known is exactly half of total the quorum gate lets the decision
  pass: the failover command is run if the other gates pass (no master in reach, the
  local record is that of the furthest host, no maintenance file, the local node not in
  the never-promote list).
\<close>

theorem quorum_gate:
  assumes "get_replication_positions self (utcnow w) standby_nodes = Inr known"
  shows "(real (size_of_known_state self known)
            < real_of_int (total_amount_of_nodes self standby_nodes) / 2 \<longrightarrow>
          \<not> failover_invoked (do_failover_decision w self own_state standby_nodes))
     \<and> (2 * int (size_of_known_state self known) = total_amount_of_nodes self standby_nodes
          \<and> connected_master_nodes self = []
          \<and> \<not> have_we_been_in_contact_with_the_master_within_the_failover_timeout self (utcnow w)
          \<and> known \<noteq> []
          \<and> own_state \<noteq> None
          \<and> map_of standby_nodes (furthest_along_host known) = own_state
          \<and> \<not> maintenance_mode_file_exists w
          \<and> (\<forall>name. own_db self = Some name \<longrightarrow> name \<notin> set (never_promote_these_nodes self))
          \<longrightarrow> failover_invoked (do_failover_decision w self own_state standby_nodes))"
proof (intro conjI impI)
  assume "real (size_of_known_state self known)
            < real_of_int (total_amount_of_nodes self standby_nodes) / 2"
  with assms show "\<not> failover_invoked (do_failover_decision w self own_state standby_nodes)"
    by (simp add: do_failover_decision_def decide_for_positions_def Let_def
        split: option.splits)
next
  assume gates: "2 * int (size_of_known_state self known) = total_amount_of_nodes self standby_nodes
          \<and> connected_master_nodes self = []
          \<and> \<not> have_we_been_in_contact_with_the_master_within_the_failover_timeout self (utcnow w)
          \<and> known \<noteq> []
          \<and> own_state \<noteq> None
          \<and> map_of standby_nodes (furthest_along_host known) = own_state
          \<and> \<not> maintenance_mode_file_exists w
          \<and> (\<forall>name. own_db self = Some name \<longrightarrow> name \<notin> set (never_promote_these_nodes self))"
  then have total: "total_amount_of_nodes self standby_nodes
      = 2 * int (size_of_known_state self known)"
    by simp
  have half: "\<not> real (size_of_known_state self known)
            < real_of_int (total_amount_of_nodes self standby_nodes) * 0.5"
    unfolding total by simp
  from gates obtain st where "own_state = Some st" by auto
  with gates assms half
  show "failover_invoked (do_failover_decision w self own_state standby_nodes)"
    by (cases "own_db self")
       (simp_all add: do_failover_decision_def decide_for_positions_def Let_def)
qed

theorem quorum_gate_witness:
  "\<not> failover_invoked
       (do_failover_decision a_world two_lost_observers
          (Some (a_standby_state 1000 ''1/2'')) lone_standby)
   \<and> failover_invoked
       (do_failover_decision a_world (a_pglookout ''A'' 120 [])
          (Some (a_standby_state 1000 ''1/2'')) lone_standby)"
proof -
  have below: "real (size_of_known_state two_lost_observers [(4294967298, {''A''})])
     < real_of_int (total_amount_of_nodes two_lost_observers lone_standby) / 2"
    by (simp add: size_of_known_state_def total_amount_of_nodes_def two_lost_observers_def
        lone_standby_def)
  have half: "2 * int (size_of_known_state (a_pglookout ''A'' 120 []) [(4294967298, {''A''})])
     = total_amount_of_nodes (a_pglookout ''A'' 120 []) lone_standby"
    by (simp add: size_of_known_state_def total_amount_of_nodes_def lone_standby_def)
  have own: "map_of lone_standby (furthest_along_host [(4294967298, {''A''})])
     = Some (a_standby_state 1000 ''1/2'')"
    by (simp add: furthest_lone lone_standby_def)
  have quiet: "\<not> have_we_been_in_contact_with_the_master_within_the_failover_timeout
                    (a_pglookout ''A'' 120 []) (utcnow a_world)"
    by (simp add: have_we_been_in_contact_with_the_master_within_the_failover_timeout_def)
  from quorum_gate [of two_lost_observers a_world lone_standby "[(4294967298, {''A''})]"
      "Some (a_standby_state 1000 ''1/2'')"] two_lost_observers_positions below
  have first: "\<not> failover_invoked
       (do_failover_decision a_world two_lost_observers
          (Some (a_standby_state 1000 ''1/2'')) lone_standby)"
    by simp
  from quorum_gate [of "a_pglookout ''A'' 120 []" a_world lone_standby "[(4294967298, {''A''})]"
      "Some (a_standby_state 1000 ''1/2'')"] lone_positions [of "''A''" 120 "[]"] half own quiet
  have second: "failover_invoked
       (do_failover_decision a_world (a_pglookout ''A'' 120 [])
          (Some (a_standby_state 1000 ''1/2'')) lone_standby)"
    by simp
  from first second show ?thesis by simp
qed

section \<open>Gate 3: the host that is furthest along\<close>

lemma add_position_well_formed:
  "well_formed_positions known \<Longrightarrow> well_formed_positions (add_position xlog_pos hostname known)"
  unfolding well_formed_positions_def add_position_def
  by (auto split: option.splits intro!: list_all_update dest: list_all_map_of)

lemma positions_from_well_formed:
  "get_replication_positions_from self now known nodes = Inr known'
     \<Longrightarrow> well_formed_positions known \<Longrightarrow> well_formed_positions known'"
proof (induction nodes arbitrary: known)
  case Nil
  then show ?case by simp
next
  case (Cons node nodes)
  obtain hostname state where node: "node = (hostname, state)" by (cases node)
  show ?case
  proof (cases "counts_for_failover self now hostname state")
    case False
    with Cons node show ?thesis by simp
  next
    case True
    with Cons.prems node obtain xlog_pos where "xlog_pos_of state = Inr xlog_pos"
      and "get_replication_positions_from self now (add_position xlog_pos hostname known) nodes
            = Inr known'"
      by (auto split: sum.splits)
    with Cons.IH Cons.prems(2) show ?thesis
      by (blast intro: add_position_well_formed)
  qed
qed

lemma get_replication_positions_well_formed:
  "get_replication_positions self now standby_nodes = Inr known \<Longrightarrow> well_formed_positions known"
  unfolding get_replication_positions_def
  by (erule positions_from_well_formed) (simp add: well_formed_positions_def)

lemma furthest_depends_on_map:
  "map_of known' = map_of known \<Longrightarrow> furthest_along_host known' = furthest_along_host known"
proof -
  assume same: "map_of known' = map_of known"
  then have "dom (map_of known') = dom (map_of known)" by simp
  then have "set (map fst known') = set (map fst known)"
    by (simp add: dom_map_of_conv_image_fst)
  with same show ?thesis by (simp add: furthest_along_host_def)
qed


lemma three_positions:
  "get_replication_positions (a_pglookout name timeout disconnected) 1005 three_standbys
     = Inr [(4294967298, {''B'', ''C''}), (4294967297, {''A''})]"
  by (simp add: get_replication_positions_def counts_for_failover_def add_position_def
      xlog_pos_of_a_standby_state offset_1_2 offset_1_1 three_standbys_def)

lemma set_update_subset: "set (AList.update k v al) \<subseteq> insert (k, v) (set al)"
  by (induction al) auto

lemma add_position_hosts:
  "recorded_hosts (add_position xlog_pos hostname known) \<subseteq> insert hostname (recorded_hosts known)"
proof (cases "map_of known xlog_pos")
  case None
  then show ?thesis
    using set_update_subset [of xlog_pos "{hostname}" known]
    by (auto simp: recorded_hosts_def add_position_def)
next
  case (Some hosts)
  then have "(xlog_pos, hosts) \<in> set known" by (rule map_of_SomeD)
  with Some show ?thesis
    using set_update_subset [of xlog_pos "insert hostname hosts" known]
    by (fastforce simp: recorded_hosts_def add_position_def)
qed

lemma positions_from_hosts:
  "get_replication_positions_from self now known nodes = Inr known'
     \<Longrightarrow> recorded_hosts known' \<subseteq> recorded_hosts known \<union> fst ` set nodes"
proof (induction nodes arbitrary: known)
  case Nil
  then show ?case by simp
next
  case (Cons node nodes)
  obtain hostname state where node: "node = (hostname, state)" by (cases node)
  show ?case
  proof (cases "counts_for_failover self now hostname state")
    case False
    with Cons node show ?thesis by auto
  next
    case True
    with Cons.prems node obtain xlog_pos where
      "get_replication_positions_from self now (add_position xlog_pos hostname known) nodes
            = Inr known'"
      by (auto split: sum.splits)
    from Cons.IH [OF this] add_position_hosts [of xlog_pos hostname known] node
    show ?thesis by auto
  qed
qed

lemma recorded_hosts_are_standbys:
  "get_replication_positions self now standby_nodes = Inr known
     \<Longrightarrow> recorded_hosts known \<subseteq> fst ` set standby_nodes"
  unfolding get_replication_positions_def
  by (drule positions_from_hosts) (simp add: recorded_hosts_def)


text \<open>
  C4. Whenever \<^verbatim>\<open>do_failover_decision\<close> gets as far as choosing a candidate (no master
  in reach and a non-empty \<^verbatim>\<open>known_replication_positions\<close>), the candidate is the
  smallest peer id, in the lexicographic order of strings, among the set of peers recorded
  at the greatest offset, and it is a standby. The decision turns on that peer: a node whose
  own record is not the candidate's leaves the promotion to the candidate by name, and
  the failover command runs only on a node whose own record is the candidate's. The
  candidate depends on the content of the dictionary only, not on the order in which its
  keys were inserted, so deciders that compute over the same dictionary choose the same
  peer.
\<close>

theorem do_failover_decision_candidate:
  assumes "connected_master_nodes self = []"
    and "\<not> have_we_been_in_contact_with_the_master_within_the_failover_timeout self (utcnow w)"
    and "get_replication_positions self (utcnow w) standby_nodes = Inr known"
    and "known \<noteq> []"
  shows "(\<exists>top hosts candidate state.
            map_of known top = Some hosts
            \<and> (\<forall>pos \<in> fst ` set known. pos \<le> top)
            \<and> candidate \<in> hosts
            \<and> (\<forall>h \<in> hosts. candidate \<le> h)
            \<and> map_of standby_nodes candidate = Some state
            \<and> (Some state \<noteq> own_state \<longrightarrow>
                  do_failover_decision w self own_state standby_nodes
                    = Inr (Nothing_to_do candidate, self, []))
            \<and> (Some state = own_state \<longrightarrow>
                  (\<forall>h s events. do_failover_decision w self own_state standby_nodes
                     \<noteq> Inr (Nothing_to_do h, s, events)))
            \<and> (failover_invoked (do_failover_decision w self own_state standby_nodes) \<longrightarrow>
                  Some state = own_state))
     \<and> (\<forall>known'. map_of known' = map_of known \<longrightarrow>
            furthest_along_host known' = furthest_along_host known)"
proof (intro conjI allI impI)
  let ?keys = "fst ` set known"
  let ?top = "Max ?keys"
  let ?candidate = "furthest_along_host known"
  from assms(3) have wf: "well_formed_positions known"
    by (rule get_replication_positions_well_formed)
  from assms(4) have keys: "finite ?keys" "?keys \<noteq> {}" by simp_all
  then have "?top \<in> ?keys" by (rule Max_in)
  then obtain hosts where hosts: "map_of known ?top = Some hosts"
    by (auto dest: weak_map_of_SomeI)
  then have member: "(?top, hosts) \<in> set known" by (rule map_of_SomeD)
  with wf have good: "finite hosts" "hosts \<noteq> {}"
    by (auto simp: well_formed_positions_def list_all_iff)
  have candidate: "?candidate = Min hosts"
    using hosts by (simp add: furthest_along_host_def)
  have above: "\<forall>pos \<in> ?keys. pos \<le> ?top"
    using keys by (auto intro: Max_ge)
  have inside: "?candidate \<in> hosts"
    unfolding candidate using good by (rule Min_in)
  have least: "\<forall>h \<in> hosts. ?candidate \<le> h"
    unfolding candidate using good by (auto intro: Min_le)
  from inside member have "?candidate \<in> recorded_hosts known"
    by (force simp: recorded_hosts_def)
  with recorded_hosts_are_standbys [OF assms(3)] have "?candidate \<in> fst ` set standby_nodes"
    by blast
  then obtain state where state: "map_of standby_nodes ?candidate = Some state"
    by (auto dest: weak_map_of_SomeI)
  have decision: "do_failover_decision w self own standby_nodes
      = decide_for_positions w self own standby_nodes known" for own
    using assms by (simp add: do_failover_decision_def)
  have other: "Some state \<noteq> own_state \<longrightarrow>
      do_failover_decision w self own_state standby_nodes
        = Inr (Nothing_to_do ?candidate, self, [])"
    using state by (simp add: decision decide_for_positions_def Let_def)
  have own: "Some state = own_state \<longrightarrow>
      (\<forall>h s events. do_failover_decision w self own_state standby_nodes
         \<noteq> Inr (Nothing_to_do h, s, events))"
  proof
    assume "Some state = own_state"
    then have eq: "own_state = Some state" by simp
    show "\<forall>h s events. do_failover_decision w self own_state standby_nodes
         \<noteq> Inr (Nothing_to_do h, s, events)"
      unfolding eq decision using state
      by (simp add: decide_for_positions_def Let_def)
  qed
  have invoked: "failover_invoked (do_failover_decision w self own_state standby_nodes) \<longrightarrow>
      Some state = own_state"
  proof (cases "Some state = own_state")
    case True
    then show ?thesis by simp
  next
    case False
    with other show ?thesis by simp
  qed
  from hosts above inside least state other own invoked
  show "\<exists>top hosts candidate state.
            map_of known top = Some hosts
            \<and> (\<forall>pos \<in> fst ` set known. pos \<le> top)
            \<and> candidate \<in> hosts
            \<and> (\<forall>h \<in> hosts. candidate \<le> h)
            \<and> map_of standby_nodes candidate = Some state
            \<and> (Some state \<noteq> own_state \<longrightarrow>
                  do_failover_decision w self own_state standby_nodes
                    = Inr (Nothing_to_do candidate, self, []))
            \<and> (Some state = own_state \<longrightarrow>
                  (\<forall>h s events. do_failover_decision w self own_state standby_nodes
                     \<noteq> Inr (Nothing_to_do h, s, events)))
            \<and> (failover_invoked (do_failover_decision w self own_state standby_nodes) \<longrightarrow>
                  Some state = own_state)"
    by blast
next
  fix known'
  assume "map_of known' = map_of known"
  then show "furthest_along_host known' = furthest_along_host known"
    by (rule furthest_depends_on_map)
qed



theorem do_failover_decision_candidate_witness:
  "get_replication_positions (a_pglookout ''A'' 120 []) (utcnow a_world) three_standbys
     = Inr [(4294967298, {''B'', ''C''}), (4294967297, {''A''})]
   \<and> do_failover_decision a_world (a_pglookout ''A'' 120 [])
        (Some (a_standby_state 1000 ''1/1'')) three_standbys
     = Inr (Nothing_to_do ''B'', a_pglookout ''A'' 120 [], [])
   \<and> \<not> failover_invoked (do_failover_decision a_world (a_pglookout ''C'' 120 [])
        (Some (a_standby_state 1001 ''1/2'')) three_standbys)
   \<and> furthest_along_host [(4294967297, {''A''}), (4294967298, {''C'', ''B''})]
     = furthest_along_host [(4294967298, {''B'', ''C''}), (4294967297, {''A''})]"
proof -
  let ?known = "[(4294967298, {''B'', ''C''}), (4294967297, {''A''})] :: positions"
  have nonempty: "?known \<noteq> []" by simp
  have same: "map_of [(4294967297, {''A''}), (4294967298, {''C'', ''B''})] = map_of ?known"
    by (auto simp: fun_eq_iff)
  have pick: "candidate = ''B'' \<and> state = a_standby_state 1000 ''1/2''"
    if "map_of ?known top = Some hosts" and "\<forall>pos \<in> fst ` set ?known. pos \<le> top"
      and "candidate \<in> hosts" and "\<forall>h \<in> hosts. candidate \<le> h"
      and "map_of three_standbys candidate = Some state"
    for top hosts candidate state
  proof -
    from that(1,2) have "top = 4294967298 \<and> hosts = {''B'', ''C''}"
      by (auto split: if_splits)
    with that(3,4) have "candidate = ''B''" by auto
    with that(5) show ?thesis by (simp add: three_standbys_def)
  qed
  let ?a = "a_pglookout ''A'' 120 []"
  let ?aown = "Some (a_standby_state 1000 ''1/1'')"
  have anone: "connected_master_nodes ?a = []" by simp
  have aquiet: "\<not> have_we_been_in_contact_with_the_master_within_the_failover_timeout
                    ?a (utcnow a_world)"
    by (simp add: have_we_been_in_contact_with_the_master_within_the_failover_timeout_def)
  have afound: "get_replication_positions ?a (utcnow a_world) three_standbys = Inr ?known"
    by (simp add: three_positions)
  note a = do_failover_decision_candidate [OF anone aquiet afound nonempty, of ?aown]
  from a [THEN conjunct1]
  have first: "do_failover_decision a_world ?a ?aown three_standbys
            = Inr (Nothing_to_do ''B'', ?a, [])"
  proof (elim exE conjE)
    fix top hosts candidate state
    assume facts: "map_of ?known top = Some hosts" "\<forall>pos \<in> fst ` set ?known. pos \<le> top"
      "candidate \<in> hosts" "\<forall>h \<in> hosts. candidate \<le> h"
      "map_of three_standbys candidate = Some state"
    assume other: "Some state \<noteq> ?aown \<longrightarrow>
          do_failover_decision a_world ?a ?aown three_standbys
            = Inr (Nothing_to_do candidate, ?a, [])"
    from pick [OF facts] have "candidate = ''B''" and "Some state \<noteq> ?aown"
      by (simp_all add: a_standby_state_def)
    with other show ?thesis by simp
  qed
  let ?c = "a_pglookout ''C'' 120 []"
  let ?cown = "Some (a_standby_state 1001 ''1/2'')"
  have cnone: "connected_master_nodes ?c = []" by simp
  have cquiet: "\<not> have_we_been_in_contact_with_the_master_within_the_failover_timeout
                    ?c (utcnow a_world)"
    by (simp add: have_we_been_in_contact_with_the_master_within_the_failover_timeout_def)
  have cfound: "get_replication_positions ?c (utcnow a_world) three_standbys = Inr ?known"
    by (simp add: three_positions)
  note c = do_failover_decision_candidate [OF cnone cquiet cfound nonempty, of ?cown]
  from c [THEN conjunct1]
  have second: "\<not> failover_invoked (do_failover_decision a_world ?c ?cown three_standbys)"
  proof (elim exE conjE)
    fix top hosts candidate state
    assume facts: "map_of ?known top = Some hosts" "\<forall>pos \<in> fst ` set ?known. pos \<le> top"
      "candidate \<in> hosts" "\<forall>h \<in> hosts. candidate \<le> h"
      "map_of three_standbys candidate = Some state"
    assume invoked: "failover_invoked (do_failover_decision a_world ?c ?cown three_standbys)
           \<longrightarrow> Some state = ?cown"
    from pick [OF facts] have "Some state \<noteq> ?cown"
      by (simp add: a_standby_state_def)
    with invoked show ?thesis by blast
  qed
  from a [THEN conjunct2] same
  have third: "furthest_along_host [(4294967297, {''A''}), (4294967298, {''C'', ''B''})]
     = furthest_along_host ?known"
    by blast
  from afound first second third show ?thesis by simp
qed

section \<open>Gate 3: the check that the local node is the candidate\<close>

lemma twin_decision:
  "do_failover_decision a_world (a_pglookout ''B'' 120 []) (Some (a_standby_state 1000 ''1/2''))
     twin_standbys
   = Inr (Failover 0, a_pglookout ''B'' 120 [],
          [Execute [''promote''], Create_alert_file ''failover_has_happened'', Sleep 0,
           Delete_alert_file ''replication_delay_warning''])"
  by (simp add: decision_defs twin_positions furthest_twin) (simp add: twin_standbys_def)

text \<open>
  C9. Once a non-empty dictionary of replication positions is found with no master in
  reach, \<^verbatim>\<open>do_failover_decision\<close> leaves the promotion to the candidate exactly when the
  state record of the candidate differs from \<^verbatim>\<open>own_state\<close>: the check compares whole
  records, and \<^verbatim>\<open>own_db\<close> is not compared with the candidate. So in the cluster of two
  standbys \<open>A\<close> and \<open>B\<close> with equal state records, where the candidate is \<open>A\<close>, the
  node \<open>B\<close> passes the check as well and runs the failover command.
\<close>

theorem self_check_compares_records:
  assumes "connected_master_nodes self = []"
    and "\<not> have_we_been_in_contact_with_the_master_within_the_failover_timeout self (utcnow w)"
    and "get_replication_positions self (utcnow w) standby_nodes = Inr known"
    and "known \<noteq> []"
    and "map_of standby_nodes (furthest_along_host known) = Some furthest_state"
  shows "((do_failover_decision w self own_state standby_nodes
            = Inr (Nothing_to_do (furthest_along_host known), self, []))
          = (Some furthest_state \<noteq> own_state))
     \<and> own_db (a_pglookout ''B'' 120 []) = Some ''B''
     \<and> get_replication_positions (a_pglookout ''B'' 120 []) (utcnow a_world) twin_standbys
         = Inr [(4294967298, {''A'', ''B''})]
     \<and> furthest_along_host [(4294967298, {''A'', ''B''})] = ''A''
     \<and> map_of twin_standbys ''A'' = map_of twin_standbys ''B''
     \<and> failover_invoked
         (do_failover_decision a_world (a_pglookout ''B'' 120 [])
            (map_of twin_standbys ''B'') twin_standbys)"
proof (intro conjI)
  from assms
  show "(do_failover_decision w self own_state standby_nodes
            = Inr (Nothing_to_do (furthest_along_host known), self, []))
          = (Some furthest_state \<noteq> own_state)"
    by (simp add: do_failover_decision_def decide_for_positions_def Let_def)
next
  show "failover_invoked
         (do_failover_decision a_world (a_pglookout ''B'' 120 [])
            (map_of twin_standbys ''B'') twin_standbys)"
    using twin_decision by (simp add: twin_standbys_def)
next
  show "get_replication_positions (a_pglookout ''B'' 120 []) (utcnow a_world) twin_standbys
         = Inr [(4294967298, {''A'', ''B''})]"
    by (simp add: twin_positions)
next
  show "map_of twin_standbys ''A'' = map_of twin_standbys ''B''"
    by (simp add: twin_standbys_def)
qed (simp_all add: furthest_twin)

theorem self_check_compares_records_witness:
  "do_failover_decision a_world (a_pglookout ''B'' 120 [])
      (Some (a_standby_state 1000 ''1/2'')) twin_standbys
     \<noteq> Inr (Nothing_to_do ''A'', a_pglookout ''B'' 120 [], [])
   \<and> do_failover_decision a_world (a_pglookout ''B'' 120 [])
      (Some (a_standby_state 999 ''1/2'')) twin_standbys
     = Inr (Nothing_to_do ''A'', a_pglookout ''B'' 120 [], [])"
proof -
  let ?self = "a_pglookout ''B'' 120 []"
  let ?known = "[(4294967298, {''A'', ''B''})] :: positions"
  have none: "connected_master_nodes ?self = []" by simp
  have quiet: "\<not> have_we_been_in_contact_with_the_master_within_the_failover_timeout
                    ?self (utcnow a_world)"
    by (simp add: have_we_been_in_contact_with_the_master_within_the_failover_timeout_def)
  have found: "get_replication_positions ?self (utcnow a_world) twin_standbys = Inr ?known"
    by (simp add: twin_positions)
  have nonempty: "?known \<noteq> []" by simp
  have state: "map_of twin_standbys (furthest_along_host ?known)
      = Some (a_standby_state 1000 ''1/2'')"
    by (simp add: furthest_twin twin_standbys_def)
  have differ: "a_standby_state 1000 ''1/2'' \<noteq> a_standby_state 999 ''1/2''"
    by (simp add: a_standby_state_def)
  from self_check_compares_records [OF none quiet found nonempty state,
      of "Some (a_standby_state 1000 ''1/2'')"]
    self_check_compares_records [OF none quiet found nonempty state,
      of "Some (a_standby_state 999 ''1/2'')"] differ
  show ?thesis by (simp add: furthest_twin)
qed

section \<open>Gate 1: a master without db\_time\<close>




end
